theory Spec2Isabelle
  imports Complex_Main
begin

section \<open>JavaScript numbers and dates\<close>

text \<open>
  The two source files are \<^verbatim>\<open>TimeseriesApp.js\<close> (the controller) and the selection view
  \<^verbatim>\<open>TimeseriesSelectView\<close>. Both compute with \<^verbatim>\<open>Date\<close> objects. A \<^verbatim>\<open>Date\<close> holds a time
  value: either NaN (an invalid date) or an integral number of milliseconds since the epoch
  with absolute value at most 8.64e15. Every number the code computes from time values is an
  integer; sums and differences of two time values stay below 2^54, and the only use made of
  them is a comparison with a small constant, which rounding to a double cannot change. They
  are therefore modelled as unbounded integers with an explicit NaN.
\<close>

datatype jsnum = NaN | Num int

text \<open>The exceptions that the code can meet.\<close>

datatype error = TypeError | RangeError | SyntaxError

datatype jsdate = InvalidDate | Date int

fun getTime :: "jsdate \<Rightarrow> jsnum" where
  "getTime InvalidDate = NaN"
| "getTime (Date t) = Num t"

fun js_sub :: "jsnum \<Rightarrow> jsnum \<Rightarrow> jsnum" where
  "js_sub (Num a) (Num b) = Num (a - b)"
| "js_sub _ _ = NaN"

fun js_le :: "jsnum \<Rightarrow> jsnum \<Rightarrow> bool" where
  "js_le (Num a) (Num b) = (a \<le> b)"
| "js_le _ _ = False"

fun js_gt :: "jsnum \<Rightarrow> jsnum \<Rightarrow> bool" where
  "js_gt (Num a) (Num b) = (a > b)"
| "js_gt _ _ = False"

subsection \<open>The date arithmetic of the language standard\<close>

text \<open>
  \<^verbatim>\<open>getUTCFullYear\<close>, \<^verbatim>\<open>getUTCMonth\<close>, \<^verbatim>\<open>getUTCDate\<close>, \<^verbatim>\<open>getUTCHours\<close>, \<^verbatim>\<open>getUTCMinutes\<close> and
  \<^verbatim>\<open>Date.UTC\<close> are built into the language. They are written here as the ECMAScript standard
  defines them (section "Time Values and Time Range" and following), on a finite time value.
\<close>

definition msPerDay :: int where "msPerDay = 86400000"
definition msPerHour :: int where "msPerHour = 3600000"
definition msPerMinute :: int where "msPerMinute = 60000"
definition msPerSecond :: int where "msPerSecond = 1000"
definition maxTime :: int where "maxTime = 8640000000000000"

definition Day :: "int \<Rightarrow> int" where
  "Day t = t div msPerDay"

definition DayFromYear :: "int \<Rightarrow> int" where
  "DayFromYear y =
     365 * (y - 1970) + (y - 1969) div 4 - (y - 1901) div 100 + (y - 1601) div 400"

definition InLeapYear :: "int \<Rightarrow> int" where
  "InLeapYear y = (if (y mod 4 = 0 \<and> y mod 100 \<noteq> 0) \<or> y mod 400 = 0 then 1 else 0)"

text \<open>
  The standard defines the year of a time value as the largest \<open>y\<close> whose first day is not
  after it. \<open>YearFromDay\<close> computes it from the mean length of a year, 146097 / 400 days,
  which is off by at most one year.
\<close>

definition YearFromDay :: "int \<Rightarrow> int" where
  "YearFromDay d =
     (let e = 1970 + (400 * d) div 146097
      in if DayFromYear (e + 1) \<le> d then e + 1
         else if DayFromYear e \<le> d then e
         else e - 1)"

definition YearFromTime :: "int \<Rightarrow> int" where
  "YearFromTime t = YearFromDay (Day t)"

definition DayWithinYear :: "int \<Rightarrow> int" where
  "DayWithinYear t = Day t - DayFromYear (YearFromTime t)"

definition MonthFromTime :: "int \<Rightarrow> int" where
  "MonthFromTime t =
     (let d = DayWithinYear t; l = InLeapYear (YearFromTime t)
      in if d < 31 then 0
         else if d < 59 + l then 1
         else if d < 90 + l then 2
         else if d < 120 + l then 3
         else if d < 151 + l then 4
         else if d < 181 + l then 5
         else if d < 212 + l then 6
         else if d < 243 + l then 7
         else if d < 273 + l then 8
         else if d < 304 + l then 9
         else if d < 334 + l then 10
         else 11)"

text \<open>The number of days of the year that precede month \<open>m\<close> (0 to 11).\<close>

definition DaysBeforeMonth :: "int \<Rightarrow> int \<Rightarrow> int" where
  "DaysBeforeMonth m l =
     (if m = 0 then 0
      else if m = 1 then 31
      else if m = 2 then 59 + l
      else if m = 3 then 90 + l
      else if m = 4 then 120 + l
      else if m = 5 then 151 + l
      else if m = 6 then 181 + l
      else if m = 7 then 212 + l
      else if m = 8 then 243 + l
      else if m = 9 then 273 + l
      else if m = 10 then 304 + l
      else 334 + l)"

definition DateFromTime :: "int \<Rightarrow> int" where
  "DateFromTime t =
     DayWithinYear t - DaysBeforeMonth (MonthFromTime t) (InLeapYear (YearFromTime t)) + 1"

definition HourFromTime :: "int \<Rightarrow> int" where
  "HourFromTime t = (t div msPerHour) mod 24"

definition MinFromTime :: "int \<Rightarrow> int" where
  "MinFromTime t = (t div msPerMinute) mod 60"

definition SecFromTime :: "int \<Rightarrow> int" where
  "SecFromTime t = (t div msPerSecond) mod 60"

definition msFromTime :: "int \<Rightarrow> int" where
  "msFromTime t = t mod msPerSecond"

definition MakeTime :: "int \<Rightarrow> int \<Rightarrow> int \<Rightarrow> int \<Rightarrow> int" where
  "MakeTime h m s ms = h * msPerHour + m * msPerMinute + s * 1000 + ms"

definition MakeDay :: "int \<Rightarrow> int \<Rightarrow> int \<Rightarrow> int" where
  "MakeDay year month date =
     (let ym = year + month div 12; mn = month mod 12
      in DayFromYear ym + DaysBeforeMonth mn (InLeapYear ym) + date - 1)"

definition MakeDate :: "int \<Rightarrow> int \<Rightarrow> int" where
  "MakeDate day time = day * msPerDay + time"

definition TimeClip :: "int \<Rightarrow> jsnum" where
  "TimeClip t = (if \<bar>t\<bar> > maxTime then NaN else Num t)"

text \<open>
  \<^verbatim>\<open>Date.UTC(y, m, d, h, i)\<close> with seconds and milliseconds absent (they default to 0). A
  year from 0 to 99 stands for 1900 + year: that is the rule of the standard.
\<close>

definition Date_UTC :: "int \<Rightarrow> int \<Rightarrow> int \<Rightarrow> int \<Rightarrow> int \<Rightarrow> jsnum" where
  "Date_UTC y m d h i =
     (let yr = (if 0 \<le> y \<and> y \<le> 99 then 1900 + y else y)
      in TimeClip (MakeDate (MakeDay yr m d) (MakeTime h i 0 0)))"

text \<open>\<^verbatim>\<open>new Date(value)\<close> for a number.\<close>

fun new_Date :: "jsnum \<Rightarrow> jsdate" where
  "new_Date NaN = InvalidDate"
| "new_Date (Num v) = (case TimeClip v of NaN \<Rightarrow> InvalidDate | Num t \<Rightarrow> Date t)"

subsection \<open>Dates as strings\<close>

text \<open>
  \<^verbatim>\<open>toISOString\<close> of a valid date: \<^verbatim>\<open>YYYY-MM-DDTHH:mm:ss.sssZ\<close>, the year with four digits
  from 0 to 9999 and with a sign and six digits otherwise. On an invalid date it throws a
  \<^verbatim>\<open>RangeError\<close>.
\<close>

definition digit :: "int \<Rightarrow> char" where
  "digit n = char_of (48 + n mod 10)"

definition pad2 :: "int \<Rightarrow> string" where
  "pad2 n = [digit (n div 10), digit n]"

definition pad3 :: "int \<Rightarrow> string" where
  "pad3 n = [digit (n div 100), digit (n div 10), digit n]"

definition pad4 :: "int \<Rightarrow> string" where
  "pad4 n = [digit (n div 1000), digit (n div 100), digit (n div 10), digit n]"

definition pad6 :: "int \<Rightarrow> string" where
  "pad6 n = [digit (n div 100000), digit (n div 10000), digit (n div 1000), digit (n div 100),
             digit (n div 10), digit n]"

definition toISOString :: "int \<Rightarrow> string" where
  "toISOString t =
     (let y = YearFromTime t
      in (if 0 \<le> y \<and> y \<le> 9999 then pad4 y
          else (if y < 0 then ''-'' else ''+'') @ pad6 \<bar>y\<bar>)
         @ ''-'' @ pad2 (MonthFromTime t + 1) @ ''-'' @ pad2 (DateFromTime t)
         @ ''T'' @ pad2 (HourFromTime t) @ '':'' @ pad2 (MinFromTime t)
         @ '':'' @ pad2 (SecFromTime t) @ ''.'' @ pad3 (msFromTime t) @ ''Z'')"

subsection \<open>Rounding up to the next N minutes\<close>

text \<open>
  \<^verbatim>\<open>__roundUpToNearestNMinutes(dt, n)\<close>. The interval \<open>n\<close> is an integer, as the function's
  documentation says; \<^verbatim>\<open>n || 5\<close> replaces 0 by 5. \<^verbatim>\<open>Math.floor\<close> of a quotient is \<open>div\<close> on
  integers. All fields of an invalid date are NaN, and so is the result.
\<close>

fun roundUpToNearestNMinutes :: "jsdate \<Rightarrow> int \<Rightarrow> jsdate" where
  "roundUpToNearestNMinutes InvalidDate n = InvalidDate"
| "roundUpToNearestNMinutes (Date t) n =
     (let y = YearFromTime t;
          m = MonthFromTime t;
          d = DateFromTime t;
          h = HourFromTime t;
          i = MinFromTime t;
          n = (if n = 0 then 5 else n);
          i = n * ((i + n) div n)
      in new_Date (Date_UTC y m d h i))"

declare roundUpToNearestNMinutes.simps [simp del]

section \<open>The configuration model\<close>

text \<open>
  The configuration is a \<^verbatim>\<open>Model\<close> with the five attributes that \<^verbatim>\<open>_initialize\<close> of
  \<^verbatim>\<open>TimeseriesApp\<close> gives it. \<^verbatim>\<open>null\<close> is \<open>None\<close>.
\<close>

record configuration =
  channel :: "string option"
  endtime :: "jsdate option"
  observatory :: "string option"
  starttime :: "jsdate option"
  timemode :: string

text \<open>
  An object literal passed to \<^verbatim>\<open>set\<close> (or to \<^verbatim>\<open>Util.extend\<close>) names some of the attributes.
  For each attribute, \<open>None\<close> says that the literal has no such key.
\<close>

record patch =
  set_channel :: "string option option"
  set_endtime :: "jsdate option option"
  set_observatory :: "string option option"
  set_starttime :: "jsdate option option"
  set_timemode :: "string option"

definition no_keys :: patch where
  "no_keys = \<lparr>set_channel = None, set_endtime = None, set_observatory = None,
               set_starttime = None, set_timemode = None\<rparr>"

text \<open>
  Modelled from the spec: \<^verbatim>\<open>Model.set\<close> and \<^verbatim>\<open>Util.extend\<close> belong to the MVC library, which
  is not among the source files. The specification describes the update entry point as
  replacing the full set of changed fields at once; the attributes that the literal does not
  name keep their values.
\<close>

definition Util_extend :: "configuration \<Rightarrow> patch \<Rightarrow> configuration" where
  "Util_extend c p =
     \<lparr>channel = (case set_channel p of None \<Rightarrow> channel c | Some v \<Rightarrow> v),
      endtime = (case set_endtime p of None \<Rightarrow> endtime c | Some v \<Rightarrow> v),
      observatory = (case set_observatory p of None \<Rightarrow> observatory c | Some v \<Rightarrow> v),
      starttime = (case set_starttime p of None \<Rightarrow> starttime c | Some v \<Rightarrow> v),
      timemode = (case set_timemode p of None \<Rightarrow> timemode c | Some v \<Rightarrow> v)\<rparr>"

text \<open>The defaults of \<^verbatim>\<open>_initialize\<close>.\<close>

definition default_config :: configuration where
  "default_config =
     \<lparr>channel = Some ''H'', endtime = None, observatory = None, starttime = None,
      timemode = ''pasthour''\<rparr>"

section \<open>The controller: TimeseriesApp\<close>

subsection \<open>Data\<close>

text \<open>
  The metadata of a series and the attributes of a reference observatory. An attribute that
  is \<^verbatim>\<open>undefined\<close> is \<open>None\<close>. Latitudes are compared only through the sign of their
  difference, which is the same for doubles as for the reals they denote.
\<close>

record metadata =
  m_observatory :: string
  m_name :: "string option"
  m_latitude :: "real option"
  m_longitude :: "real option"

record series =
  ts_id :: string
  ts_metadata :: metadata

record reference =
  o_name :: "string option"
  o_latitude :: "real option"
  o_longitude :: "real option"

text \<open>The arguments of one call of \<^verbatim>\<open>_timeseriesFactory.getTimeseries\<close>.\<close>

record request =
  req_channel :: "string option"
  req_observatory :: "string option"
  req_channels :: "string list option"
  req_endtime :: jsdate
  req_starttime :: jsdate
  req_seconds :: bool

text \<open>
  \<^verbatim>\<open>_autoUpdateTimeout\<close> is declared without a value, so it starts as \<^verbatim>\<open>undefined\<close>; later
  it is \<^verbatim>\<open>null\<close> or the identifier that \<^verbatim>\<open>setTimeout\<close> returned.
\<close>

datatype handle = Undefined | Null | Timeout nat

text \<open>
  The state has the variables of the closure (\<open>autoUpdateTimeout\<close>, \<open>channels\<close>,
  \<open>config\<close>, \<open>observatories\<close>, \<open>timeseries\<close>, and \<open>loading\<close> for the class
  \<^verbatim>\<open>loading\<close> of \<^verbatim>\<open>_timeseriesEl\<close>) and what the environment holds for it: the calls received
  by the fetch service, oldest first, the pending timers as pairs of identifier and delay,
  the next timer identifier, and whether the reference service still owes its answer. The
  description element and the off-canvas panel are display only and are left out.
\<close>

record app =
  autoUpdateTimeout :: handle
  channels :: "string list"
  config :: configuration
  observatories :: "string \<Rightarrow> reference option"
  timeseries :: "series list"
  loading :: bool
  requests :: "request list"
  timers :: "(nat \<times> int) list"
  next_timer :: nat
  reference_pending :: bool

text \<open>
  A handler either runs to its end or throws; what it had done to the state before the
  throw stays done.
\<close>

datatype outcome = Completed app | Thrown error app

fun state_of :: "outcome \<Rightarrow> app" where
  "state_of (Completed s) = s"
| "state_of (Thrown e s) = s"

subsection \<open>Timers\<close>

text \<open>\<^verbatim>\<open>clearTimeout\<close> drops the pending timer with the given identifier, if there is one.\<close>

fun clearTimeout :: "handle \<Rightarrow> (nat \<times> int) list \<Rightarrow> (nat \<times> int) list" where
  "clearTimeout (Timeout h) ts = filter (\<lambda>(k, d). k \<noteq> h) ts"
| "clearTimeout _ ts = ts"

text \<open>\<^verbatim>\<open>setTimeout\<close> returns a fresh identifier and leaves the timer pending.\<close>

definition setTimeout :: "int \<Rightarrow> app \<Rightarrow> nat \<times> app" where
  "setTimeout delay s =
     (next_timer s,
      s\<lparr>timers := timers s @ [(next_timer s, delay)],
        next_timer := Suc (next_timer s)\<rparr>)"

subsection \<open>The configuration change listener\<close>

text \<open>
  \<^verbatim>\<open>_onConfigChange\<close>, with the wall clock read by \<^verbatim>\<open>new Date()\<close> as the argument \<open>now\<close>.
  In the last branch \<open>endtime\<close> and \<open>starttime\<close> are whatever the configuration holds, and
  \<^verbatim>\<open>endtime.getTime()\<close> throws a \<^verbatim>\<open>TypeError\<close> on \<^verbatim>\<open>null\<close>.
\<close>

definition onConfigChange :: "jsdate \<Rightarrow> app \<Rightarrow> outcome" where
  "onConfigChange now s0 =
     (let s1 = (if autoUpdateTimeout s0 \<noteq> Null
                then s0\<lparr>autoUpdateTimeout := Null,
                        timers := clearTimeout (autoUpdateTimeout s0) (timers s0)\<rparr>
                else s0);
          channel' = channel (config s1);
          observatory' = observatory (config s1);
          timemode' = timemode (config s1);
          (endtime', starttime', autoUpdateTime) =
            (if timemode' = ''realtime'' then
               (let e = roundUpToNearestNMinutes now 1
                in (Some e, Some (new_Date (js_sub (getTime e) (Num 900000))), Some 300000))
             else if timemode' = ''pastday'' then
               (let e = roundUpToNearestNMinutes now 5
                in (Some e, Some (new_Date (js_sub (getTime e) (Num 86400000))), Some 300000))
             else (endtime (config s1), starttime (config s1), None))
      in case (endtime', starttime') of
           (Some e, Some b) \<Rightarrow>
             (let seconds = js_le (js_sub (getTime e) (getTime b)) (Num 1800000);
                  s2 = s1\<lparr>loading := True\<rparr>;
                  channels' = (if observatory' \<noteq> None then Some (channels s2) else None);
                  s3 = s2\<lparr>requests := requests s2 @
                         [\<lparr>req_channel = channel', req_observatory = observatory',
                           req_channels = channels', req_endtime = e, req_starttime = b,
                           req_seconds = seconds\<rparr>]\<rparr>
              in Completed (case autoUpdateTime of
                              None \<Rightarrow> s3
                            | Some delay \<Rightarrow>
                                (let (h, s4) = setTimeout delay s3
                                 in s4\<lparr>autoUpdateTimeout := Timeout h\<rparr>)))
         | _ \<Rightarrow> Thrown TypeError s1)"

definition onAutoUpdate :: "jsdate \<Rightarrow> app \<Rightarrow> outcome" where
  "onAutoUpdate now s = onConfigChange now s"

subsection \<open>The callbacks of the fetch service\<close>

definition onTimeseriesError :: "app \<Rightarrow> app" where
  "onTimeseriesError s = s\<lparr>loading := False, timeseries := []\<rparr>"

text \<open>
  The first step of \<^verbatim>\<open>_onTimeseriesLoad\<close>: the reference attributes overwrite those of the
  metadata when the collection has the observatory.
\<close>

definition copy_metadata :: "(string \<Rightarrow> reference option) \<Rightarrow> series \<Rightarrow> series" where
  "copy_metadata obs t =
     (let metadata' = ts_metadata t
      in case obs (m_observatory metadata') of
           None \<Rightarrow> t
         | Some observatory' \<Rightarrow>
             t\<lparr>ts_metadata := metadata'\<lparr>m_name := o_name observatory',
                                          m_latitude := o_latitude observatory',
                                          m_longitude := o_longitude observatory'\<rparr>\<rparr>)"

text \<open>
  Strings are compared code unit by code unit; observatory codes are ASCII, one \<open>char\<close>
  per code unit.
\<close>

fun str_less :: "string \<Rightarrow> string \<Rightarrow> bool" where
  "str_less [] [] = False"
| "str_less [] (y # ys) = True"
| "str_less (x # xs) [] = False"
| "str_less (x # xs) (y # ys) =
     (if (of_char x :: nat) < of_char y then True
      else if (of_char y :: nat) < of_char x then False
      else str_less xs ys)"

text \<open>A latitude is truthy when it is defined and not 0.\<close>

fun truthy :: "real option \<Rightarrow> bool" where
  "truthy None = False"
| "truthy (Some x) = (x \<noteq> 0)"

text \<open>
  The comparison function handed to \<^verbatim>\<open>sort\<close>: negative when \<open>a\<close> is to come first,
  positive when \<open>b\<close> is.
\<close>

definition compare_series :: "series \<Rightarrow> series \<Rightarrow> real" where
  "compare_series a b =
     (let aMeta = ts_metadata a;
          bMeta = ts_metadata b;
          aKey = m_latitude aMeta;
          bKey = m_latitude bMeta
      in if truthy aKey \<and> truthy bKey then the bKey - the aKey
         else (let aKey = m_observatory aMeta;
                   bKey = m_observatory bMeta
               in if str_less aKey bKey then - 1
                  else if str_less bKey aKey then 1
                  else 0))"

text \<open>
  \<^verbatim>\<open>Array.prototype.sort\<close> belongs to the JavaScript engine. When the comparison function is
  consistent on the elements, the standard fixes the result: the elements in the order of
  the comparison function, equal ones in their former order. \<open>sort_by\<close>, an insertion sort
  that moves an element past those that the comparison function puts before it, computes
  that result. When the comparison function is not consistent (and \<open>compare_series\<close> is
  not when some latitudes are truthy and some are not) the order is up to the engine. The
  sort is therefore a parameter of the callback, and \<open>sort_by\<close> is one engine.
\<close>

type_synonym sorter = "(series \<Rightarrow> series \<Rightarrow> real) \<Rightarrow> series list \<Rightarrow> series list"

fun insert_by :: "('a \<Rightarrow> 'a \<Rightarrow> real) \<Rightarrow> 'a \<Rightarrow> 'a list \<Rightarrow> 'a list" where
  "insert_by cmp x [] = [x]"
| "insert_by cmp x (y # ys) =
     (if cmp x y \<le> 0 then x # y # ys else y # insert_by cmp x ys)"

definition sort_by :: "('a \<Rightarrow> 'a \<Rightarrow> real) \<Rightarrow> 'a list \<Rightarrow> 'a list" where
  "sort_by cmp xs = foldr (insert_by cmp) xs []"

definition onTimeseriesLoad :: "sorter \<Rightarrow> series list \<Rightarrow> app \<Rightarrow> app" where
  "onTimeseriesLoad Array_sort response s =
     (let timeseries' = map (copy_metadata (observatories s)) response;
          timeseries' = Array_sort compare_series timeseries'
      in s\<lparr>timeseries := timeseries', loading := False\<rparr>)"

section \<open>The selection view: TimeseriesSelectView\<close>

text \<open>
  The view holds three radio buttons, two text inputs, the class \<^verbatim>\<open>custom\<close> of the time
  element and the error message (\<open>None\<close> when it is cleared). Its handlers write to the
  configuration through \<^verbatim>\<open>_config.set\<close> only; each handler returns the object literal it
  passes to \<^verbatim>\<open>set\<close>, or \<open>None\<close> when it does not call \<^verbatim>\<open>set\<close>.
\<close>

datatype element = TimeRealtime | TimePastday | TimeCustom | StartTime | EndTime | TimeUpdate

record view =
  timeRealtime_checked :: bool
  timePastday_checked :: bool
  timeCustom_checked :: bool
  startTime_value :: string
  endTime_value :: string
  timeEl_custom :: bool
  timeError :: "string option"

text \<open>
  Modelled from the spec: \<^verbatim>\<open>Model.set\<close> of the MVC library, applied to what a handler
  passes to it, if anything. The specification has every write announce one change to the
  listeners of the configuration.
\<close>

definition Model_set :: "patch option \<Rightarrow> configuration \<Rightarrow> configuration" where
  "Model_set call c = (case call of None \<Rightarrow> c | Some p \<Rightarrow> Util_extend c p)"

subsection \<open>Channel and observatory\<close>

text \<open>
  \<^verbatim>\<open>getAttribute('data-id')\<close> gives \<^verbatim>\<open>null\<close> or a string; \<^verbatim>\<open>if (id)\<close> lets a non-empty
  string through.
\<close>

definition onChannelClick :: "string option \<Rightarrow> patch option" where
  "onChannelClick id' =
     (if id' \<noteq> None \<and> id' \<noteq> Some []
      then Some (no_keys\<lparr>set_channel := Some id', set_observatory := Some None\<rparr>)
      else None)"

definition onObservatoryClick :: "string option \<Rightarrow> patch option" where
  "onObservatoryClick id' =
     (if id' \<noteq> None \<and> id' \<noteq> Some []
      then Some (no_keys\<lparr>set_channel := Some None, set_observatory := Some id'\<rparr>)
      else None)"

subsection \<open>Parsing and validating the custom times\<close>

text \<open>\<^verbatim>\<open>String.prototype.replace\<close> with a string pattern replaces the first occurrence.\<close>

fun replace_first :: "char \<Rightarrow> string \<Rightarrow> string \<Rightarrow> string" where
  "replace_first c r [] = []"
| "replace_first c r (x # xs) = (if x = c then r @ xs else x # replace_first c r xs)"

text \<open>
  \<^verbatim>\<open>_parseDate\<close>. How \<^verbatim>\<open>new Date\<close> reads a string is left to the browser: it is the
  parameter \<open>Date_parse\<close>.
\<close>

definition parseDate :: "(string \<Rightarrow> jsdate) \<Rightarrow> string \<Rightarrow> jsdate option" where
  "parseDate Date_parse s =
     (if s = [] then None
      else Some (Date_parse (replace_first CHR ''Z'' [] (replace_first CHR '' '' ''T'' s) @ ''Z'')))"

definition setTimeError :: "string option \<Rightarrow> view \<Rightarrow> view" where
  "setTimeError message v = v\<lparr>timeError := message\<rparr>"

text \<open>The number a date or \<^verbatim>\<open>null\<close> stands for in \<^verbatim>\<open>+time\<close>, \<^verbatim>\<open>start > end\<close> and \<^verbatim>\<open>end - start\<close>.\<close>

fun ToNumber :: "jsdate option \<Rightarrow> jsnum" where
  "ToNumber None = Num 0"
| "ToNumber (Some d) = getTime d"

definition timeOrder :: "jsdate option \<Rightarrow> jsdate option \<Rightarrow> view \<Rightarrow> bool \<times> view" where
  "timeOrder start end' v =
     (if js_gt (ToNumber start) (ToNumber end')
      then (False, setTimeError (Some ''Start Time must come before End Time.'') v)
      else (True, setTimeError None v))"

definition validateTime :: "jsdate option \<Rightarrow> view \<Rightarrow> bool \<times> view" where
  "validateTime time v =
     (if time = None \<or> ToNumber time = NaN
      then (False, setTimeError (Some ''Please enter a valid time.'') v)
      else (True, setTimeError None v))"

definition validateRange :: "jsdate option \<Rightarrow> jsdate option \<Rightarrow> view \<Rightarrow> bool \<times> view" where
  "validateRange start end' v =
     (if js_gt (js_sub (ToNumber end') (ToNumber start)) (Num 2678400000)
      then (False, setTimeError (Some ''Please select less than 1 month of data.'') v)
      else (True, setTimeError None v))"

subsection \<open>The time handler\<close>

text \<open>
  \<^verbatim>\<open>_onTimeChange\<close> for an event whose target is \<open>target\<close>. The four checks are joined by
  \<^verbatim>\<open>&&\<close>: a check that fails ends the evaluation.
\<close>

definition onTimeChange :: "(string \<Rightarrow> jsdate) \<Rightarrow> element \<Rightarrow> view \<Rightarrow> view \<times> patch option" where
  "onTimeChange Date_parse target v0 =
     (if timeCustom_checked v0 then
        (let v1 = v0\<lparr>timeEl_custom := True\<rparr>
         in if target = TimeCustom then (v1, None)
            else
              (let endTime = parseDate Date_parse (endTime_value v1);
                   startTime = parseDate Date_parse (startTime_value v1);
                   (ok1, v2) = validateTime startTime v1
               in if \<not> ok1 then (v2, None)
                  else
                    (let (ok2, v3) = validateTime endTime v2
                     in if \<not> ok2 then (v3, None)
                        else
                          (let (ok3, v4) = timeOrder startTime endTime v3
                           in if \<not> ok3 then (v4, None)
                              else
                                (let (ok4, v5) = validateRange startTime endTime v4
                                 in if \<not> ok4 then (v5, None)
                                    else (v5, Some (no_keys\<lparr>set_endtime := Some endTime,
                                                             set_starttime := Some startTime,
                                                             set_timemode := Some ''custom''\<rparr>)))))))
      else
        (let v1 = v0\<lparr>timeEl_custom := False\<rparr>
         in if timeRealtime_checked v1 then (v1, Some (no_keys\<lparr>set_timemode := Some ''realtime''\<rparr>))
            else if timePastday_checked v1 then (v1, Some (no_keys\<lparr>set_timemode := Some ''pastday''\<rparr>))
            else (v1, None)))"

subsection \<open>Rendering\<close>

text \<open>
  \<^verbatim>\<open>_formatDate\<close>: the ISO string with a space for the \<^verbatim>\<open>T\<close> and without the first match of
  \<^verbatim>\<open>/\.[\d]{3}Z/\<close>, that is without the milliseconds and the zone. \<^verbatim>\<open>null\<close> gives the empty
  string, and an invalid date makes \<^verbatim>\<open>toISOString\<close> throw.
\<close>

definition is_digit :: "char \<Rightarrow> bool" where
  "is_digit c = (48 \<le> (of_char c :: nat) \<and> (of_char c :: nat) \<le> 57)"

fun remove_millis :: "string \<Rightarrow> string" where
  "remove_millis (a # b # c # d # e # rest) =
     (if a = CHR ''.'' \<and> is_digit b \<and> is_digit c \<and> is_digit d \<and> e = CHR ''Z'' then rest
      else a # remove_millis (b # c # d # e # rest))"
| "remove_millis xs = xs"

definition formatted :: "int \<Rightarrow> string" where
  "formatted t = remove_millis (replace_first CHR ''T'' '' '' (toISOString t))"

definition formatDate :: "jsdate option \<Rightarrow> error + string" where
  "formatDate d =
     (case d of
        None \<Rightarrow> Inr []
      | Some InvalidDate \<Rightarrow> Inl RangeError
      | Some (Date t) \<Rightarrow> Inr (formatted t))"

text \<open>
  The three radio buttons share the name \<^verbatim>\<open>timemode\<close>: when one of them is checked, by the
  user or by the code, the other two are unchecked.
\<close>

definition check :: "element \<Rightarrow> view \<Rightarrow> view" where
  "check x v =
     v\<lparr>timeRealtime_checked := (x = TimeRealtime),
       timePastday_checked := (x = TimePastday),
       timeCustom_checked := (x = TimeCustom)\<rparr>"

text \<open>
  \<^verbatim>\<open>render\<close>, the listener of the view for changes of the configuration: it fills the end
  input, then the start input, then checks the button of the stored mode. The lists of
  channels and observatories that it also rewrites are display only. The result has the
  exception, if one was thrown, and the view as it was left.
\<close>

definition render :: "configuration \<Rightarrow> view \<Rightarrow> error option \<times> view" where
  "render c v0 =
     (case formatDate (endtime c) of
        Inl e \<Rightarrow> (Some e, v0)
      | Inr endText \<Rightarrow>
          (let v1 = v0\<lparr>endTime_value := endText\<rparr>
           in case formatDate (starttime c) of
                Inl e \<Rightarrow> (Some e, v1)
              | Inr startText \<Rightarrow>
                  (let v2 = v1\<lparr>startTime_value := startText\<rparr>
                   in (None,
                       if timemode c = ''realtime'' then check TimeRealtime v2
                       else if timemode c = ''pastday'' then check TimePastday v2
                       else check TimeCustom v2))))"

text \<open>The view as its markup creates it, before the first \<^verbatim>\<open>render\<close>.\<close>

definition blank_view :: view where
  "blank_view =
     \<lparr>timeRealtime_checked = False, timePastday_checked = False, timeCustom_checked = False,
      startTime_value = [], endTime_value = [], timeEl_custom = False, timeError = None\<rparr>"

subsection \<open>The view at work\<close>

text \<open>
  What the user can do to the time controls: pick one of the three buttons, type into one
  of the two inputs and leave it, or click Update. The browser checks the picked button or
  stores the typed text, and sends the event to \<^verbatim>\<open>_onTimeChange\<close>. When the handler calls
  \<^verbatim>\<open>set\<close>, the configuration announces the change and \<^verbatim>\<open>render\<close> runs; an exception of
  \<^verbatim>\<open>render\<close> ends the event and leaves the view as it then is. (Inside the controller the
  listener \<^verbatim>\<open>_onConfigChange\<close> runs before \<^verbatim>\<open>render\<close>; after a \<^verbatim>\<open>set\<close> of this handler it
  completes, since the mode is then realtime or pastday, or custom with two valid dates.)
\<close>

datatype action =
    PickRealtime | PickPastday | PickCustom
  | TypeStart string | TypeEnd string
  | ClickUpdate

fun target_of :: "action \<Rightarrow> element" where
  "target_of PickRealtime = TimeRealtime"
| "target_of PickPastday = TimePastday"
| "target_of PickCustom = TimeCustom"
| "target_of (TypeStart s) = StartTime"
| "target_of (TypeEnd s) = EndTime"
| "target_of ClickUpdate = TimeUpdate"

fun browser :: "action \<Rightarrow> view \<Rightarrow> view" where
  "browser PickRealtime v = check TimeRealtime v"
| "browser PickPastday v = check TimePastday v"
| "browser PickCustom v = check TimeCustom v"
| "browser (TypeStart s) v = v\<lparr>startTime_value := s\<rparr>"
| "browser (TypeEnd s) v = v\<lparr>endTime_value := s\<rparr>"
| "browser ClickUpdate v = v"

definition view_step ::
  "(string \<Rightarrow> jsdate) \<Rightarrow> action \<Rightarrow> view \<times> configuration \<Rightarrow> view \<times> configuration" where
  "view_step Date_parse a vc =
     (let (v', call) = onTimeChange Date_parse (target_of a) (browser a (fst vc))
      in case call of
           None \<Rightarrow> (v', snd vc)
         | Some p \<Rightarrow> (snd (render (Model_set call (snd vc)) v'), Model_set call (snd vc)))"

fun view_run ::
  "(string \<Rightarrow> jsdate) \<Rightarrow> action list \<Rightarrow> view \<times> configuration \<Rightarrow> view \<times> configuration" where
  "view_run Date_parse [] vc = vc"
| "view_run Date_parse (a # as) vc = view_run Date_parse as (view_step Date_parse a vc)"

section \<open>Start-up of the controller and the events of a run\<close>

text \<open>
  The options of \<^verbatim>\<open>TimeseriesApp\<close>; \<open>opt_configEl\<close> says whether an element for the
  selection view is given.
\<close>

record options =
  opt_channels :: "string list option"
  opt_config :: patch
  opt_configEl :: bool
  opt_observatories :: "(string \<Rightarrow> reference option) option"
  opt_timeseries :: "series list option"

text \<open>
  The variables as \<^verbatim>\<open>_initialize\<close> sets them. When no observatories are given the
  collection starts empty and the reference service is asked for them.
\<close>

definition initial_app :: "options \<Rightarrow> app" where
  "initial_app opts =
     \<lparr>autoUpdateTimeout = Undefined,
      channels = (case opt_channels opts of None \<Rightarrow> [''H'', ''E'', ''Z'', ''F''] | Some cs \<Rightarrow> cs),
      config = Util_extend default_config (opt_config opts),
      observatories = (case opt_observatories opts of None \<Rightarrow> (\<lambda>code. None) | Some m \<Rightarrow> m),
      timeseries = (case opt_timeseries opts of None \<Rightarrow> [] | Some ts \<Rightarrow> ts),
      loading = False,
      requests = [],
      timers = [],
      next_timer = 0,
      reference_pending = (opt_observatories opts = None)\<rparr>"

text \<open>
  \<^verbatim>\<open>_initialize\<close> can end before the first cycle. Without \<open>configEl\<close> it calls
  \<^verbatim>\<open>insertAdjacentHTML\<close> with the markup where the position belongs, which the browser
  refuses with a \<^verbatim>\<open>SyntaxError\<close>. With it, the selection view is built and renders once, and
  an exception of that \<^verbatim>\<open>render\<close> ends \<^verbatim>\<open>_initialize\<close> too. Otherwise the first cycle runs.
\<close>

datatype startup = NotStarted error | Started outcome

definition initialize :: "options \<Rightarrow> jsdate \<Rightarrow> startup" where
  "initialize opts now =
     (if \<not> opt_configEl opts then NotStarted SyntaxError
      else case fst (render (config (initial_app opts)) blank_view) of
             Some e \<Rightarrow> NotStarted e
           | None \<Rightarrow> Started (onConfigChange now (initial_app opts)))"

text \<open>
  What can happen to a running controller: the configuration model announces a change made
  by \<^verbatim>\<open>set\<close>, the armed timer fires, the fetch service answers one of the calls it
  received, or the reference service delivers the observatories. The number in a fetch
  event is the position of the answered call in \<open>requests\<close>; the callbacks are not told it.
\<close>

datatype event =
    ConfigChange patch jsdate
  | TimerFires nat jsdate
  | FetchLoaded nat "series list"
  | FetchFailed nat
  | ReferenceLoaded "string \<Rightarrow> reference option"

fun enabled :: "event \<Rightarrow> app \<Rightarrow> bool" where
  "enabled (ConfigChange p now) s = True"
| "enabled (TimerFires h now) s = (h \<in> fst ` set (timers s))"
| "enabled (FetchLoaded k response) s = (k < length (requests s))"
| "enabled (FetchFailed k) s = (k < length (requests s))"
| "enabled (ReferenceLoaded m) s = reference_pending s"

text \<open>A fetch event is the completion of a call, with records or with a failure.\<close>

fun completion :: "event \<Rightarrow> bool" where
  "completion (FetchLoaded k response) = True"
| "completion (FetchFailed k) = True"
| "completion _ = False"

fun step :: "sorter \<Rightarrow> event \<Rightarrow> app \<Rightarrow> app" where
  "step Array_sort (ConfigChange p now) s =
     state_of (onConfigChange now (s\<lparr>config := Util_extend (config s) p\<rparr>))"
| "step Array_sort (TimerFires h now) s =
     state_of (onAutoUpdate now (s\<lparr>timers := filter (\<lambda>(k, d). k \<noteq> h) (timers s)\<rparr>))"
| "step Array_sort (FetchLoaded k response) s = onTimeseriesLoad Array_sort response s"
| "step Array_sort (FetchFailed k) s = onTimeseriesError s"
| "step Array_sort (ReferenceLoaded m) s = s\<lparr>observatories := m, reference_pending := False\<rparr>"

fun run :: "sorter \<Rightarrow> event list \<Rightarrow> app \<Rightarrow> app" where
  "run Array_sort [] s = s"
| "run Array_sort (e # es) s = run Array_sort es (step Array_sort e s)"

text \<open>
  The controller keeps at most one timer pending, the one that \<open>autoUpdateTimeout\<close> names.
\<close>

definition one_timer :: "app \<Rightarrow> bool" where
  "one_timer s =
     (timers s = [] \<or>
      (case autoUpdateTimeout s of Timeout h \<Rightarrow> map fst (timers s) = [h] | _ \<Rightarrow> False))"

section \<open>Sample inputs\<close>

text \<open>
  Options that start the controller in a given time mode, or in custom mode with given
  times, with an element for the view and everything else defaulted; a
  series with a given identifier, observatory code and latitude; a reference collection
  that knows the observatory BOU; a reader of four
  date strings, 1 January 2021, 1 February 2021 (31 days later), 1 March 2021 and half a
  second into 1 January 2021, that finds every other string invalid; and a view whose custom button is checked, holding two input strings.
\<close>

definition mode_options :: "string \<Rightarrow> options" where
  "mode_options mode =
     \<lparr>opt_channels = None, opt_config = no_keys\<lparr>set_timemode := Some mode\<rparr>,
      opt_configEl = True, opt_observatories = None, opt_timeseries = None\<rparr>"

definition custom_options :: "jsdate option \<Rightarrow> jsdate option \<Rightarrow> options" where
  "custom_options start end' =
     \<lparr>opt_channels = None,
      opt_config = no_keys\<lparr>set_endtime := Some end', set_starttime := Some start,
                           set_timemode := Some ''custom''\<rparr>,
      opt_configEl = True, opt_observatories = None, opt_timeseries = None\<rparr>"

definition sample_series :: "string \<Rightarrow> string \<Rightarrow> real option \<Rightarrow> series" where
  "sample_series ident code lat =
     \<lparr>ts_id = ident,
      ts_metadata = \<lparr>m_observatory = code, m_name = None, m_latitude = lat, m_longitude = None\<rparr>\<rparr>"

definition sample_reference :: "string \<Rightarrow> reference option" where
  "sample_reference code =
     (if code = ''BOU''
      then Some \<lparr>o_name = Some ''Boulder'', o_latitude = Some 40, o_longitude = Some (- 105)\<rparr>
      else None)"

definition sample_parse :: "string \<Rightarrow> jsdate" where
  "sample_parse s =
     (if s = ''2021-01-01T00:00:00Z'' then Date 1609459200000
      else if s = ''2021-02-01T00:00:00Z'' then Date 1612137600000
      else if s = ''2021-03-01T00:00:00Z'' then Date 1614556800000
      else if s = ''2021-01-01T00:00:00.500Z'' then Date 1609459200500
      else InvalidDate)"

definition custom_view :: "string \<Rightarrow> string \<Rightarrow> view" where
  "custom_view start end' =
     \<lparr>timeRealtime_checked = False, timePastday_checked = False, timeCustom_checked = True,
      startTime_value = start, endTime_value = end', timeEl_custom = True, timeError = None\<rparr>"

section \<open>Rounding up\<close>

subsection \<open>Dates and their fields\<close>

text \<open>
  \<open>YearFromDay\<close> is the year of the standard: the first day of the year it returns is
  not after the given day, and it is the largest year of which that is true.
\<close>

lemma DayFromYear_bounds:
  "146097 * (y - 1970) - 506 \<le> 400 * DayFromYear y"
  "400 * DayFromYear y \<le> 146097 * (y - 1970) + 589"
proof -
  define a where "a = (y - 1969) div 4"
  define b where "b = (y - 1901) div 100"
  define c where "c = (y - 1601) div 400"
  have a: "4 * a \<le> y - 1969" "y - 1969 < 4 * a + 4"
    unfolding a_def
    using div_mult_mod_eq[of "y - 1969" 4] pos_mod_sign[of 4 "y - 1969"]
      pos_mod_bound[of 4 "y - 1969"] by linarith+
  have b: "100 * b \<le> y - 1901" "y - 1901 < 100 * b + 100"
    unfolding b_def
    using div_mult_mod_eq[of "y - 1901" 100] pos_mod_sign[of 100 "y - 1901"]
      pos_mod_bound[of 100 "y - 1901"] by linarith+
  have c: "400 * c \<le> y - 1601" "y - 1601 < 400 * c + 400"
    unfolding c_def
    using div_mult_mod_eq[of "y - 1601" 400] pos_mod_sign[of 400 "y - 1601"]
      pos_mod_bound[of 400 "y - 1601"] by linarith+
  have d: "DayFromYear y = 365 * (y - 1970) + a - b + c"
    by (simp add: DayFromYear_def a_def b_def c_def)
  show "146097 * (y - 1970) - 506 \<le> 400 * DayFromYear y"
    unfolding d using a b c by (simp add: algebra_simps)
  show "400 * DayFromYear y \<le> 146097 * (y - 1970) + 589"
    unfolding d using a b c by (simp add: algebra_simps)
qed

lemma DayFromYear_Suc: "DayFromYear y < DayFromYear (y + 1)"
proof -
  have a: "(y - 1969) div 4 \<le> (y + 1 - 1969) div 4" by (intro zdiv_mono1) simp_all
  have c: "(y - 1601) div 400 \<le> (y + 1 - 1601) div 400" by (intro zdiv_mono1) simp_all
  have "(y + 1 - 1901) div 100 \<le> ((y - 1901) + 100) div 100"
    by (intro zdiv_mono1) simp_all
  then have b: "(y + 1 - 1901) div 100 \<le> (y - 1901) div 100 + 1" by simp
  define a1 where "a1 = (y - 1969) div 4"
  define a2 where "a2 = (y + 1 - 1969) div 4"
  define b1 where "b1 = (y - 1901) div 100"
  define b2 where "b2 = (y + 1 - 1901) div 100"
  define c1 where "c1 = (y - 1601) div 400"
  define c2 where "c2 = (y + 1 - 1601) div 400"
  have "365 * (y - 1970) + a1 - b1 + c1 < 365 * (y + 1 - 1970) + a2 - b2 + c2"
    using a b c unfolding a1_def[symmetric] a2_def[symmetric] b1_def[symmetric]
      b2_def[symmetric] c1_def[symmetric] c2_def[symmetric] by (simp add: algebra_simps)
  then show ?thesis
    unfolding DayFromYear_def a1_def a2_def b1_def b2_def c1_def c2_def .
qed

lemma DayFromYear_mono: "y \<le> z \<Longrightarrow> DayFromYear y \<le> DayFromYear z"
proof -
  assume "y \<le> z"
  then obtain k where "z = y + int k" using zle_iff_zadd by auto
  moreover have "DayFromYear y \<le> DayFromYear (y + int k)"
  proof (induction k)
    case 0
    show ?case by simp
  next
    case (Suc k)
    have "DayFromYear (y + int k) < DayFromYear (y + int k + 1)" by (rule DayFromYear_Suc)
    with Suc show ?case by (simp add: algebra_simps)
  qed
  ultimately show ?thesis by simp
qed

lemma YearFromDay_correct:
  "DayFromYear (YearFromDay d) \<le> d \<and> d < DayFromYear (YearFromDay d + 1)"
proof -
  define q where "q = (400 * d) div 146097"
  have q1: "146097 * q \<le> 400 * d" and q2: "400 * d < 146097 * q + 146097"
    unfolding q_def
    using div_mult_mod_eq[of "400 * d" 146097] pos_mod_sign[of 146097 "400 * d"]
      pos_mod_bound[of 146097 "400 * d"] by linarith+
  define hi where "hi = DayFromYear (1970 + q + 2)"
  define lo where "lo = DayFromYear (1970 + q - 1)"
  have "146097 * ((1970 + q + 2) - 1970) - 506 \<le> 400 * hi"
    unfolding hi_def by (rule DayFromYear_bounds(1))
  with q2 have A: "d < hi" by (simp add: algebra_simps)
  have "400 * lo \<le> 146097 * ((1970 + q - 1) - 1970) + 589"
    unfolding lo_def by (rule DayFromYear_bounds(2))
  with q1 have B: "lo \<le> d" by (simp add: algebra_simps)
  have e2: "1970 + q + 1 + 1 = 1970 + q + 2" by simp
  show ?thesis
  proof (cases "DayFromYear (1970 + q + 1) \<le> d")
    case True
    then have "YearFromDay d = 1970 + q + 1"
      by (simp add: YearFromDay_def Let_def q_def)
    with True A show ?thesis unfolding hi_def by (simp add: e2)
  next
    case False
    note F = this
    show ?thesis
    proof (cases "DayFromYear (1970 + q) \<le> d")
      case True
      with F have "YearFromDay d = 1970 + q"
        by (simp add: YearFromDay_def Let_def q_def)
      with True F show ?thesis by simp
    next
      case False
      with F have "YearFromDay d = 1970 + q - 1"
        by (simp add: YearFromDay_def Let_def q_def)
      with False B show ?thesis unfolding lo_def by simp
    qed
  qed
qed

lemma YearFromDay_largest:
  assumes "DayFromYear y \<le> d"
  shows "y \<le> YearFromDay d"
proof (rule ccontr)
  assume "\<not> y \<le> YearFromDay d"
  then have "YearFromDay d + 1 \<le> y" by simp
  then have "DayFromYear (YearFromDay d + 1) \<le> DayFromYear y" by (rule DayFromYear_mono)
  with assms YearFromDay_correct[of d] show False by linarith
qed

lemma hour_start:
  "Day t * msPerDay + HourFromTime t * msPerHour = (t div msPerHour) * msPerHour"
proof -
  define q where "q = t div 3600000"
  have d: "t div 86400000 = q div 24"
    by (simp add: q_def div_mult2_eq[symmetric])
  define a where "a = q div 24"
  define b where "b = q mod 24"
  have q: "q = 24 * a + b" by (simp add: a_def b_def)
  have "a * 86400000 + b * 3600000 = q * 3600000"
    unfolding q by (simp add: algebra_simps)
  then show ?thesis
    unfolding Day_def HourFromTime_def msPerDay_def msPerHour_def d q_def[symmetric] a_def b_def .
qed

lemma minute_start:
  "(t div msPerHour) * msPerHour + MinFromTime t * msPerMinute = (t div msPerMinute) * msPerMinute"
proof -
  define q where "q = t div 60000"
  have d: "t div 3600000 = q div 60"
    by (simp add: q_def div_mult2_eq[symmetric])
  define a where "a = q div 60"
  define b where "b = q mod 60"
  have q: "q = 60 * a + b" by (simp add: a_def b_def)
  have "a * 3600000 + b * 60000 = q * 60000"
    unfolding q by (simp add: algebra_simps)
  then show ?thesis
    unfolding MinFromTime_def msPerMinute_def msPerHour_def d q_def[symmetric] a_def b_def .
qed

text \<open>The year, month and day of a time value name its own day.\<close>

lemma MakeDay_own_fields:
  "MakeDay (YearFromTime t) (MonthFromTime t) (DateFromTime t) = Day t"
proof -
  have m: "0 \<le> MonthFromTime t \<and> MonthFromTime t < 12"
    by (simp add: MonthFromTime_def Let_def)
  then have "MonthFromTime t div 12 = 0" "MonthFromTime t mod 12 = MonthFromTime t"
    by simp_all
  then show ?thesis
    by (simp add: MakeDay_def DateFromTime_def DayWithinYear_def)
qed

lemma Date_UTC_own_fields:
  assumes "\<not> (0 \<le> YearFromTime t \<and> YearFromTime t \<le> 99)"
  shows "Date_UTC (YearFromTime t) (MonthFromTime t) (DateFromTime t) (HourFromTime t) i =
         TimeClip ((t div msPerHour) * msPerHour + i * msPerMinute)"
proof -
  have "MakeDate (Day t) (MakeTime (HourFromTime t) i 0 0) =
        (Day t * msPerDay + HourFromTime t * msPerHour) + i * msPerMinute"
    by (simp add: MakeDate_def MakeTime_def)
  moreover have "(if 0 \<le> YearFromTime t \<and> YearFromTime t \<le> 99 then 1900 + YearFromTime t
                  else YearFromTime t) = YearFromTime t"
    using assms by (rule if_not_P)
  ultimately show ?thesis
    by (simp only: Date_UTC_def Let_def MakeDay_own_fields hour_start)
qed

lemma new_Date_TimeClip: "\<bar>r\<bar> \<le> maxTime \<Longrightarrow> new_Date (TimeClip r) = Date r"
  by (simp add: TimeClip_def)

lemma minute_floor_lower:
  assumes "- maxTime \<le> t"
  shows "- maxTime \<le> (t div msPerMinute) * msPerMinute"
proof -
  from assms have "(- 144000000000) * 60000 \<le> t" by (simp add: maxTime_def)
  then have "- 144000000000 \<le> t div 60000"
    by (simp add: pos_imp_zdiv_neg_iff zdiv_mono1 div_le_mono)
  then show ?thesis by (simp add: maxTime_def msPerMinute_def)
qed

subsection \<open>The next multiple\<close>

lemma next_multiple:
  fixes i n :: int
  assumes "0 < n"
  shows "i < n * ((i + n) div n)" and "n * ((i + n) div n) \<le> i + n"
    and "i mod n = 0 \<Longrightarrow> n * ((i + n) div n) = i + n"
proof -
  have e: "n * ((i + n) div n) = (i + n) - (i + n) mod n"
    using mult_div_mod_eq[of n "i + n"] by linarith
  have "0 \<le> (i + n) mod n" "(i + n) mod n < n"
    using assms by simp_all
  then show "i < n * ((i + n) div n)" "n * ((i + n) div n) \<le> i + n"
    unfolding e by linarith+
  show "i mod n = 0 \<Longrightarrow> n * ((i + n) div n) = i + n"
    unfolding e by simp
qed

lemma roundUp_value:
  assumes "\<not> (0 \<le> YearFromTime t \<and> YearFromTime t \<le> 99)" and "n \<noteq> 0"
  shows "roundUpToNearestNMinutes (Date t) n =
         new_Date (TimeClip ((t div msPerHour) * msPerHour +
                             (n * ((MinFromTime t + n) div n)) * msPerMinute))"
  using assms(2)
  by (simp add: roundUpToNearestNMinutes.simps Let_def Date_UTC_own_fields[OF assms(1)])

lemma roundUp_bounds:
  assumes n: "0 < n"
    and year: "\<not> (0 \<le> YearFromTime t \<and> YearFromTime t \<le> 99)"
    and lo: "- maxTime \<le> t" and hi: "t + n * msPerMinute \<le> maxTime"
  shows "\<exists>r. roundUpToNearestNMinutes (Date t) n = Date r
           \<and> r mod msPerMinute = 0
           \<and> (t div msPerMinute) * msPerMinute < r
           \<and> r \<le> (t div msPerMinute) * msPerMinute + n * msPerMinute
           \<and> (n * msPerMinute) dvd (r - (t div msPerHour) * msPerHour)
           \<and> (n dvd 60 \<longrightarrow> (n * msPerMinute) dvd r)
           \<and> (MinFromTime t mod n = 0 \<longrightarrow>
                r = (t div msPerMinute) * msPerMinute + n * msPerMinute)"
proof -
  define i where "i = MinFromTime t"
  define k where "k = n * ((i + n) div n)"
  define hs where "hs = (t div msPerHour) * msPerHour"
  define m0 where "m0 = (t div msPerMinute) * msPerMinute"
  define r where "r = hs + k * msPerMinute"
  have m0: "m0 = hs + i * msPerMinute"
    unfolding m0_def hs_def i_def by (rule minute_start[symmetric])
  have k1: "i < k"
    unfolding k_def by (rule next_multiple(1)[OF n])
  have k2: "k \<le> i + n"
    unfolding k_def by (rule next_multiple(2)[OF n])
  have k3: "i mod n = 0 \<Longrightarrow> k = i + n"
    unfolding k_def by (rule next_multiple(3)[OF n])
  have pos: "0 < msPerMinute" by (simp add: msPerMinute_def)
  have r1: "m0 < r" unfolding m0 r_def using k1 pos by simp
  have r2: "r \<le> m0 + n * msPerMinute"
  proof -
    have "k * msPerMinute \<le> (i + n) * msPerMinute"
      using k2 pos by (simp add: mult_right_mono)
    then show ?thesis unfolding m0 r_def by (simp add: algebra_simps)
  qed
  have "m0 \<le> t" unfolding m0_def msPerMinute_def
    using div_mult_mod_eq[of t 60000] pos_mod_sign[of 60000 t] by linarith
  with r2 hi have up: "r \<le> maxTime" by linarith
  have "- maxTime \<le> m0" unfolding m0_def using lo by (rule minute_floor_lower)
  with r1 have "- maxTime \<le> r" by linarith
  with up have "\<bar>r\<bar> \<le> maxTime" by simp
  then have B: "new_Date (TimeClip r) = Date r" by (rule new_Date_TimeClip)
  from n have "n \<noteq> 0" by simp
  then have A: "roundUpToNearestNMinutes (Date t) n = new_Date (TimeClip r)"
    unfolding r_def hs_def k_def i_def by (rule roundUp_value[OF year])
  from A B have val: "roundUpToNearestNMinutes (Date t) n = Date r"
    by (rule trans)
  have hsd: "msPerHour = 60 * msPerMinute" by (simp add: msPerHour_def msPerMinute_def)
  have d1: "r mod msPerMinute = 0"
    unfolding r_def hs_def hsd by simp
  have d2: "(n * msPerMinute) dvd (r - hs)"
    unfolding r_def k_def by simp
  have d3: "(n * msPerMinute) dvd r" if "n dvd 60"
  proof -
    from that have "(n * msPerMinute) dvd (60 * msPerMinute)" by (rule mult_dvd_mono) simp
    then have "(n * msPerMinute) dvd hs" unfolding hs_def hsd by simp
    with d2 show ?thesis using dvd_add[of "n * msPerMinute" "r - hs" hs] by simp
  qed
  have d4: "r = m0 + n * msPerMinute" if "i mod n = 0"
    unfolding r_def m0 using k3[OF that] by (simp add: algebra_simps)
  show ?thesis
  proof (intro exI[of _ r] conjI impI)
    show "roundUpToNearestNMinutes (Date t) n = Date r" by (rule val)
    show "r mod msPerMinute = 0" by (rule d1)
    show "(t div msPerMinute) * msPerMinute < r" using r1 unfolding m0_def .
    show "r \<le> (t div msPerMinute) * msPerMinute + n * msPerMinute" using r2 unfolding m0_def .
    show "(n * msPerMinute) dvd (r - (t div msPerHour) * msPerHour)" using d2 unfolding hs_def .
    show "(n * msPerMinute) dvd r" if "n dvd 60" using that by (rule d3)
    show "r = (t div msPerMinute) * msPerMinute + n * msPerMinute" if "MinFromTime t mod n = 0"
      using d4 that unfolding m0_def i_def .
  qed
qed

text \<open>
  \<^verbatim>\<open>Date.UTC\<close> reads a year from 0 to 99 as 1900 + year, so the dates of those years are not
  rebuilt from their own fields. No clock reading is among them.
\<close>

lemma year_after_epoch:
  assumes "0 \<le> t"
  shows "\<not> (0 \<le> YearFromTime t \<and> YearFromTime t \<le> 99)"
proof -
  from assms have "0 \<le> Day t" by (simp add: Day_def msPerDay_def pos_imp_zdiv_nonneg_iff)
  then have "0 \<le> (400 * Day t) div 146097" by (simp add: pos_imp_zdiv_nonneg_iff)
  then have "1969 \<le> YearFromDay (Day t)" by (simp add: YearFromDay_def Let_def)
  then show ?thesis by (simp add: YearFromTime_def)
qed

text \<open>
  C5: for every date \<open>dt\<close> that a clock reads (a date not before 1970, with \<open>dt\<close> plus \<open>n\<close>
  minutes still in the range of dates) and every positive minute interval \<open>n\<close>, the result
  is a date \<open>r\<close> that has no seconds or milliseconds and is the next multiple of \<open>n\<close>
  minutes strictly after the truncated minute of \<open>dt\<close>: it lies after that minute and at
  most \<open>n\<close> minutes after it, and is a multiple of \<open>n\<close> minutes counted from the hour of
  \<open>dt\<close>, which is a multiple of \<open>n\<close> minutes of the clock when \<open>n\<close> divides 60, as 1 and 5
  do. When the minute of \<open>dt\<close> is on an \<open>n\<close>-minute boundary, \<open>r\<close> is a full \<open>n\<close> minutes
  after the truncated minute, and \<open>r\<close> is never \<open>dt\<close> itself.
\<close>

theorem roundUp_next_interval:
  assumes "0 < n" and "0 \<le> t" and "t + n * msPerMinute \<le> maxTime"
  shows "\<exists>r. roundUpToNearestNMinutes (Date t) n = Date r
           \<and> r mod msPerMinute = 0
           \<and> (t div msPerMinute) * msPerMinute < r
           \<and> r \<le> (t div msPerMinute) * msPerMinute + n * msPerMinute
           \<and> (n * msPerMinute) dvd (r - (t div msPerHour) * msPerHour)
           \<and> (n dvd 60 \<longrightarrow> (n * msPerMinute) dvd r)
           \<and> (MinFromTime t mod n = 0 \<longrightarrow>
                r = (t div msPerMinute) * msPerMinute + n * msPerMinute)
           \<and> r \<noteq> t"
proof -
  have lo: "- maxTime \<le> t" using assms(2) by (simp add: maxTime_def)
  from roundUp_bounds[OF assms(1) year_after_epoch[OF assms(2)] lo assms(3)]
  obtain r where r1: "roundUpToNearestNMinutes (Date t) n = Date r"
    and r2: "r mod msPerMinute = 0"
    and r3: "(t div msPerMinute) * msPerMinute < r"
    and r4: "r \<le> (t div msPerMinute) * msPerMinute + n * msPerMinute"
    and r5: "(n * msPerMinute) dvd (r - (t div msPerHour) * msPerHour)"
    and r6: "n dvd 60 \<longrightarrow> (n * msPerMinute) dvd r"
    and r7: "MinFromTime t mod n = 0 \<longrightarrow>
               r = (t div msPerMinute) * msPerMinute + n * msPerMinute"
    by (elim exE conjE) (rule that)
  have r8: "r \<noteq> t"
  proof
    assume "r = t"
    with r2 have "t mod msPerMinute = 0" by simp
    then have "(t div msPerMinute) * msPerMinute = t"
      using div_mult_mod_eq[of t msPerMinute] by simp
    with r3 \<open>r = t\<close> show False by simp
  qed
  show ?thesis
    by (intro exI[of _ r] conjI) (fact r1 r2 r3 r4 r5 r6 r7 r8)+
qed

text \<open>
  The two examples of the specification, 00:03 and 00:05 on 1 January 2021 with an interval
  of five minutes, are instances: the first gives 00:05, the second 00:10.
\<close>

theorem roundUp_next_interval_witness:
  "(0::int) < 5
   \<and> (0::int) \<le> 1609459380000
   \<and> 1609459380000 + 5 * msPerMinute \<le> maxTime
   \<and> roundUpToNearestNMinutes (Date 1609459380000) 5 = Date 1609459500000
   \<and> (0::int) \<le> 1609459500000
   \<and> 1609459500000 + 5 * msPerMinute \<le> maxTime
   \<and> (5::int) dvd 60
   \<and> MinFromTime 1609459500000 mod 5 = 0
   \<and> roundUpToNearestNMinutes (Date 1609459500000) 5 = Date 1609459800000"
proof -
  have h1: "(0::int) < 5" by simp
  have a2: "(0::int) \<le> 1609459380000" by simp
  have a3: "1609459380000 + 5 * msPerMinute \<le> maxTime"
    by (simp add: maxTime_def msPerMinute_def)
  have b2: "(0::int) \<le> 1609459500000" by simp
  have b3: "1609459500000 + 5 * msPerMinute \<le> maxTime"
    by (simp add: maxTime_def msPerMinute_def)
  have h5: "(5::int) dvd 60" by simp
  have h6: "MinFromTime 1609459500000 mod 5 = 0" by (simp add: MinFromTime_def msPerMinute_def)
  from roundUp_next_interval[OF h1 a2 a3]
  obtain r where r1: "roundUpToNearestNMinutes (Date 1609459380000) 5 = Date r"
    and r3: "(1609459380000 div msPerMinute) * msPerMinute < r"
    and r4: "r \<le> (1609459380000 div msPerMinute) * msPerMinute + 5 * msPerMinute"
    and r6: "(5::int) dvd 60 \<longrightarrow> (5 * msPerMinute) dvd r"
    by (elim exE conjE) (rule that)
  from r6 h5 have "(5 * msPerMinute) dvd r" by (rule mp)
  then obtain k where k: "r = 300000 * k" by (auto simp add: msPerMinute_def)
  from r3 have lo: "1609459380000 < r" by (simp add: msPerMinute_def)
  from r4 have hi: "r \<le> 1609459680000" by (simp add: msPerMinute_def)
  have "5364864 < k" using lo unfolding k by simp
  moreover have "k < 5364866" using hi unfolding k by simp
  ultimately have "k = 5364865" by simp
  with k have "r = 1609459500000" by simp
  with r1 have e1: "roundUpToNearestNMinutes (Date 1609459380000) 5 = Date 1609459500000"
    by simp
  from roundUp_next_interval[OF h1 b2 b3]
  obtain q where q1: "roundUpToNearestNMinutes (Date 1609459500000) 5 = Date q"
    and q7: "MinFromTime 1609459500000 mod 5 = 0 \<longrightarrow>
               q = (1609459500000 div msPerMinute) * msPerMinute + 5 * msPerMinute"
    by (elim exE conjE) (rule that)
  from q7 h6 have "q = (1609459500000 div msPerMinute) * msPerMinute + 5 * msPerMinute"
    by (rule mp)
  then have "q = 1609459800000" by (simp add: msPerMinute_def)
  with q1 have e2: "roundUpToNearestNMinutes (Date 1609459500000) 5 = Date 1609459800000"
    by simp
  show ?thesis
    by (intro conjI) (fact h1 a2 a3 e1 b2 b3 h5 h6 e2)+
qed

section \<open>The sync cycle\<close>

lemma roundUp_wall_clock:
  assumes n: "0 < n" and t: "0 \<le> t" and hi: "t + n * msPerMinute \<le> maxTime"
  shows "\<exists>r. roundUpToNearestNMinutes (Date t) n = Date r \<and> 0 < r \<and> r \<le> maxTime"
proof -
  have lo: "- maxTime \<le> t" using t by (simp add: maxTime_def)
  from roundUp_bounds[OF n year_after_epoch[OF t] lo hi]
  obtain r where r: "roundUpToNearestNMinutes (Date t) n = Date r"
    and r1: "(t div msPerMinute) * msPerMinute < r"
    and r2: "r \<le> (t div msPerMinute) * msPerMinute + n * msPerMinute"
    by (elim exE conjE) (rule that)
  have "0 \<le> t div msPerMinute" using t by (simp add: msPerMinute_def pos_imp_zdiv_nonneg_iff)
  then have "0 \<le> (t div msPerMinute) * msPerMinute" by (simp add: msPerMinute_def)
  with r1 have p: "0 < r" by linarith
  have "(t div msPerMinute) * msPerMinute \<le> t" unfolding msPerMinute_def
    using div_mult_mod_eq[of t 60000] pos_mod_sign[of 60000 t] by linarith
  with r2 hi have "r \<le> maxTime" by linarith
  with r p show ?thesis by blast
qed

lemma new_Date_minus:
  assumes "0 < r" "r \<le> maxTime" "0 \<le> d" "d \<le> maxTime"
  shows "new_Date (js_sub (getTime (Date r)) (Num d)) = Date (r - d)"
  using assms by (simp add: TimeClip_def)

lemma live_cycle:
  assumes mode: "timemode (config s) = ''realtime'' \<and> n = 1 \<and> d = 900000
                 \<or> timemode (config s) = ''pastday'' \<and> n = 5 \<and> d = 86400000"
    and e: "roundUpToNearestNMinutes now n = Date e" and e0: "0 < e" and e1: "e \<le> maxTime"
  shows "\<exists>s'. onConfigChange now s = Completed s'
           \<and> requests s' = requests s @
                [\<lparr>req_channel = channel (config s), req_observatory = observatory (config s),
                  req_channels = (if observatory (config s) \<noteq> None then Some (channels s) else None),
                  req_endtime = Date e, req_starttime = Date (e - d),
                  req_seconds = (d \<le> 1800000)\<rparr>]
           \<and> loading s'
           \<and> autoUpdateTimeout s' = Timeout (next_timer s)
           \<and> timers s' = clearTimeout (autoUpdateTimeout s) (timers s) @ [(next_timer s, 300000)]
           \<and> config s' = config s \<and> timeseries s' = timeseries s"
proof -
  from mode have d: "0 \<le> d" "d \<le> maxTime" by (auto simp: maxTime_def)
  have st: "new_Date (js_sub (getTime (Date e)) (Num d)) = Date (e - d)"
    using e0 e1 d by (rule new_Date_minus)
  from mode show ?thesis
  proof
    assume "timemode (config s) = ''realtime'' \<and> n = 1 \<and> d = 900000"
    then show ?thesis using e st
      by (cases "autoUpdateTimeout s") (simp_all add: onConfigChange_def Let_def setTimeout_def)
  next
    assume "timemode (config s) = ''pastday'' \<and> n = 5 \<and> d = 86400000"
    then show ?thesis using e st
      by (cases "autoUpdateTimeout s") (simp_all add: onConfigChange_def Let_def setTimeout_def)
  qed
qed

lemma custom_cycle:
  assumes mode: "timemode (config s) \<noteq> ''realtime''" "timemode (config s) \<noteq> ''pastday''"
    and e: "endtime (config s) = Some e" and b: "starttime (config s) = Some b"
  shows "\<exists>s'. onConfigChange now s = Completed s'
           \<and> requests s' = requests s @
                [\<lparr>req_channel = channel (config s), req_observatory = observatory (config s),
                  req_channels = (if observatory (config s) \<noteq> None then Some (channels s) else None),
                  req_endtime = e, req_starttime = b,
                  req_seconds = js_le (js_sub (getTime e) (getTime b)) (Num 1800000)\<rparr>]
           \<and> loading s'
           \<and> autoUpdateTimeout s' = Null
           \<and> timers s' = clearTimeout (autoUpdateTimeout s) (timers s)
           \<and> config s' = config s \<and> timeseries s' = timeseries s"
  using assms
  by (cases "autoUpdateTimeout s") (simp_all add: onConfigChange_def Let_def)

lemma custom_cycle_null:
  assumes mode: "timemode (config s) \<noteq> ''realtime''" "timemode (config s) \<noteq> ''pastday''"
    and null: "endtime (config s) = None \<or> starttime (config s) = None"
  shows "\<exists>s1. onConfigChange now s = Thrown TypeError s1
           \<and> requests s1 = requests s \<and> loading s1 = loading s
           \<and> autoUpdateTimeout s1 = Null
           \<and> timers s1 = clearTimeout (autoUpdateTimeout s) (timers s)
           \<and> config s1 = config s \<and> timeseries s1 = timeseries s"
  using assms
  by (cases "autoUpdateTimeout s")
     (auto simp add: onConfigChange_def Let_def split: option.splits)

lemma completed_seconds:
  assumes "onConfigChange now s = Completed s'"
  shows "\<exists>r. requests s' = requests s @ [r]
           \<and> req_seconds r =
               js_le (js_sub (getTime (req_endtime r)) (getTime (req_starttime r))) (Num 1800000)"
  using assms
  by (auto simp add: onConfigChange_def Let_def setTimeout_def split: option.splits if_splits)

text \<open>
  C4: when the clock reads a date \<open>now\<close> that is not before 1970 and at least five minutes
  before the end of the range of dates, a cycle in realtime mode completes and asks the fetch
  service for the window that ends at \<open>roundUp(now, 1 minute)\<close> and starts 900000 ms
  earlier, and arms a timer of 300000 ms; a cycle in pastday mode does so with
  \<open>roundUp(now, 5 minutes)\<close> and 86400000 ms; and in every mode the seconds flag of the
  request is the value of \<^verbatim>\<open>end - start <= 1800000\<close>.
\<close>

theorem resolved_window:
  assumes "0 \<le> t" and "t + 5 * msPerMinute \<le> maxTime"
  shows "(timemode (config s) = ''realtime'' \<longrightarrow>
            (\<exists>s' e r. onConfigChange (Date t) s = Completed s'
               \<and> roundUpToNearestNMinutes (Date t) 1 = Date e
               \<and> requests s' = requests s @ [r]
               \<and> req_endtime r = Date e \<and> req_starttime r = Date (e - 900000)
               \<and> req_seconds r
               \<and> autoUpdateTimeout s' = Timeout (next_timer s)
               \<and> (next_timer s, 300000) \<in> set (timers s')))
       \<and> (timemode (config s) = ''pastday'' \<longrightarrow>
            (\<exists>s' e r. onConfigChange (Date t) s = Completed s'
               \<and> roundUpToNearestNMinutes (Date t) 5 = Date e
               \<and> requests s' = requests s @ [r]
               \<and> req_endtime r = Date e \<and> req_starttime r = Date (e - 86400000)
               \<and> \<not> req_seconds r
               \<and> autoUpdateTimeout s' = Timeout (next_timer s)
               \<and> (next_timer s, 300000) \<in> set (timers s')))
       \<and> (\<forall>s'. onConfigChange (Date t) s = Completed s' \<longrightarrow>
            (\<exists>r. requests s' = requests s @ [r]
               \<and> req_seconds r =
                   js_le (js_sub (getTime (req_endtime r)) (getTime (req_starttime r)))
                         (Num 1800000)
               \<and> (\<forall>e b. req_endtime r = Date e \<and> req_starttime r = Date b \<longrightarrow>
                     req_seconds r = (e - b \<le> 1800000))))"
proof (intro conjI impI allI)
  assume m: "timemode (config s) = ''realtime''"
  have "t + 1 * msPerMinute \<le> maxTime" using assms(2) by (simp add: msPerMinute_def)
  from roundUp_wall_clock[OF _ assms(1) this]
  obtain e where e: "roundUpToNearestNMinutes (Date t) 1 = Date e" "0 < e" "e \<le> maxTime"
    by auto
  from m have "timemode (config s) = ''realtime'' \<and> (1::int) = 1 \<and> (900000::int) = 900000
     \<or> timemode (config s) = ''pastday'' \<and> (1::int) = 5 \<and> (900000::int) = 86400000" by simp
  from live_cycle[OF this e] e(1)
  show "\<exists>s' e r. onConfigChange (Date t) s = Completed s'
               \<and> roundUpToNearestNMinutes (Date t) 1 = Date e
               \<and> requests s' = requests s @ [r]
               \<and> req_endtime r = Date e \<and> req_starttime r = Date (e - 900000)
               \<and> req_seconds r
               \<and> autoUpdateTimeout s' = Timeout (next_timer s)
               \<and> (next_timer s, 300000) \<in> set (timers s')"
    by fastforce
next
  assume m: "timemode (config s) = ''pastday''"
  from roundUp_wall_clock[OF _ assms(1) assms(2)]
  obtain e where e: "roundUpToNearestNMinutes (Date t) 5 = Date e" "0 < e" "e \<le> maxTime"
    by auto
  from m have "timemode (config s) = ''realtime'' \<and> (5::int) = 1 \<and> (86400000::int) = 900000
     \<or> timemode (config s) = ''pastday'' \<and> (5::int) = 5 \<and> (86400000::int) = 86400000" by simp
  from live_cycle[OF this e] e(1)
  show "\<exists>s' e r. onConfigChange (Date t) s = Completed s'
               \<and> roundUpToNearestNMinutes (Date t) 5 = Date e
               \<and> requests s' = requests s @ [r]
               \<and> req_endtime r = Date e \<and> req_starttime r = Date (e - 86400000)
               \<and> \<not> req_seconds r
               \<and> autoUpdateTimeout s' = Timeout (next_timer s)
               \<and> (next_timer s, 300000) \<in> set (timers s')"
    by fastforce
next
  fix s' assume "onConfigChange (Date t) s = Completed s'"
  from completed_seconds[OF this]
  obtain r where r: "requests s' = requests s @ [r]"
    "req_seconds r = js_le (js_sub (getTime (req_endtime r)) (getTime (req_starttime r))) (Num 1800000)"
    by auto
  then have "\<forall>e b. req_endtime r = Date e \<and> req_starttime r = Date b \<longrightarrow>
                     req_seconds r = (e - b \<le> 1800000)" by simp
  with r show "\<exists>r. requests s' = requests s @ [r]
               \<and> req_seconds r =
                   js_le (js_sub (getTime (req_endtime r)) (getTime (req_starttime r)))
                         (Num 1800000)
               \<and> (\<forall>e b. req_endtime r = Date e \<and> req_starttime r = Date b \<longrightarrow>
                     req_seconds r = (e - b \<le> 1800000))"
    by blast
qed

theorem resolved_window_witness:
  "(0::int) \<le> 1609459380000
   \<and> 1609459380000 + 5 * msPerMinute \<le> maxTime
   \<and> timemode (config (initial_app (mode_options ''realtime''))) = ''realtime''
   \<and> (\<exists>s' e r. onConfigChange (Date 1609459380000) (initial_app (mode_options ''realtime''))
                   = Completed s'
          \<and> roundUpToNearestNMinutes (Date 1609459380000) 1 = Date e
          \<and> requests s' = requests (initial_app (mode_options ''realtime'')) @ [r]
          \<and> req_endtime r = Date e \<and> req_starttime r = Date (e - 900000)
          \<and> req_seconds r
          \<and> autoUpdateTimeout s' = Timeout (next_timer (initial_app (mode_options ''realtime'')))
          \<and> (next_timer (initial_app (mode_options ''realtime'')), 300000) \<in> set (timers s'))
   \<and> timemode (config (initial_app (mode_options ''pastday''))) = ''pastday''
   \<and> (\<exists>s' e r. onConfigChange (Date 1609459380000) (initial_app (mode_options ''pastday''))
                   = Completed s'
          \<and> roundUpToNearestNMinutes (Date 1609459380000) 5 = Date e
          \<and> requests s' = requests (initial_app (mode_options ''pastday'')) @ [r]
          \<and> req_endtime r = Date e \<and> req_starttime r = Date (e - 86400000)
          \<and> \<not> req_seconds r
          \<and> autoUpdateTimeout s' = Timeout (next_timer (initial_app (mode_options ''pastday'')))
          \<and> (next_timer (initial_app (mode_options ''pastday'')), 300000) \<in> set (timers s'))
   \<and> (\<exists>s' r. onConfigChange (Date 1609459380000)
                   (initial_app (custom_options (Some (Date 1609459200000))
                                                (Some (Date 1609459500000))))
                 = Completed s'
          \<and> requests s' = requests (initial_app (custom_options (Some (Date 1609459200000))
                                                                  (Some (Date 1609459500000)))) @ [r]
          \<and> req_endtime r = Date 1609459500000 \<and> req_starttime r = Date 1609459200000
          \<and> req_seconds r = (1609459500000 - 1609459200000 \<le> (1800000::int)))"
proof -
  have h1: "(0::int) \<le> 1609459380000" by simp
  have h2: "1609459380000 + 5 * msPerMinute \<le> maxTime"
    by (simp add: msPerMinute_def maxTime_def)
  note w = resolved_window[OF h1 h2]
  have m1: "timemode (config (initial_app (mode_options ''realtime''))) = ''realtime''"
    by (simp add: initial_app_def mode_options_def Util_extend_def no_keys_def)
  have m2: "timemode (config (initial_app (mode_options ''pastday''))) = ''pastday''"
    by (simp add: initial_app_def mode_options_def Util_extend_def no_keys_def)
  note c1 = mp[OF conjunct1[OF w] m1]
  note c2 = mp[OF conjunct1[OF conjunct2[OF w]] m2]
  define s where "s = initial_app (custom_options (Some (Date 1609459200000))
                                                   (Some (Date 1609459500000)))"
  have cfg: "timemode (config s) \<noteq> ''realtime''" "timemode (config s) \<noteq> ''pastday''"
    "endtime (config s) = Some (Date 1609459500000)"
    "starttime (config s) = Some (Date 1609459200000)"
    by (simp_all add: s_def initial_app_def custom_options_def Util_extend_def no_keys_def)
  from custom_cycle[OF cfg, of "Date 1609459380000"]
  obtain s' where s': "onConfigChange (Date 1609459380000) s = Completed s'"
    and rq: "requests s' = requests s @
                [\<lparr>req_channel = channel (config s), req_observatory = observatory (config s),
                  req_channels = (if observatory (config s) \<noteq> None then Some (channels s) else None),
                  req_endtime = Date 1609459500000, req_starttime = Date 1609459200000,
                  req_seconds = js_le (js_sub (getTime (Date 1609459500000)) (getTime (Date 1609459200000))) (Num 1800000)\<rparr>]"
    by (elim exE conjE) (rule that)
  from mp[OF spec[OF conjunct2[OF conjunct2[OF w]]] s']
  obtain r where r: "requests s' = requests s @ [r]"
    and r2: "\<forall>e b. req_endtime r = Date e \<and> req_starttime r = Date b \<longrightarrow>
                     req_seconds r = (e - b \<le> 1800000)"
    by (elim exE conjE) (rule that)
  from r rq have re: "req_endtime r = Date 1609459500000" "req_starttime r = Date 1609459200000"
    by auto
  with r2 have "req_seconds r = (1609459500000 - 1609459200000 \<le> (1800000::int))"
    by blast
  with s' r re have c3: "\<exists>s' r. onConfigChange (Date 1609459380000) s = Completed s'
          \<and> requests s' = requests s @ [r]
          \<and> req_endtime r = Date 1609459500000 \<and> req_starttime r = Date 1609459200000
          \<and> req_seconds r = (1609459500000 - 1609459200000 \<le> (1800000::int))"
    by blast
  show ?thesis
    using h1 h2 m1 c1 m2 c2 c3[unfolded s_def] by (intro conjI)
qed

lemma default_mode: "timemode (config (initial_app opts)) =
   (case set_timemode (opt_config opts) of None \<Rightarrow> ''pasthour'' | Some m \<Rightarrow> m)"
  by (simp add: initial_app_def Util_extend_def default_config_def split: option.split)

text \<open>
  C10: in a cycle whose time mode is neither \<^verbatim>\<open>realtime\<close> nor \<^verbatim>\<open>pastday\<close> the window is the
  configured end and start time as they are, with no timer; when either of them is
  \<^verbatim>\<open>null\<close> the cycle throws a \<^verbatim>\<open>TypeError\<close> and asks for nothing. The default mode is
  \<^verbatim>\<open>pasthour\<close> with both times \<^verbatim>\<open>null\<close>, so a controller started without a configuration
  throws in its first cycle (or, when it is given no element for the view, before it).
\<close>

theorem custom_branch_needs_dates:
  assumes "timemode (config s) \<noteq> ''realtime''" and "timemode (config s) \<noteq> ''pastday''"
  shows "(endtime (config s) = None \<or> starttime (config s) = None \<longrightarrow>
            (\<exists>s1. onConfigChange now s = Thrown TypeError s1 \<and> requests s1 = requests s))
       \<and> (\<forall>e b. endtime (config s) = Some e \<and> starttime (config s) = Some b \<longrightarrow>
            (\<exists>s' r. onConfigChange now s = Completed s'
               \<and> requests s' = requests s @ [r]
               \<and> req_endtime r = e \<and> req_starttime r = b
               \<and> autoUpdateTimeout s' = Null))
       \<and> (\<forall>opts. opt_config opts = no_keys \<longrightarrow>
            timemode (config (initial_app opts)) = ''pasthour''
            \<and> (opt_configEl opts \<longrightarrow>
                  (\<exists>s1. initialize opts now = Started (Thrown TypeError s1) \<and> requests s1 = []))
            \<and> (\<not> opt_configEl opts \<longrightarrow> initialize opts now = NotStarted SyntaxError))"
proof (intro conjI impI allI)
  assume "endtime (config s) = None \<or> starttime (config s) = None"
  from custom_cycle_null[OF assms this, of now]
  show "\<exists>s1. onConfigChange now s = Thrown TypeError s1 \<and> requests s1 = requests s"
    by blast
next
  fix e b assume "endtime (config s) = Some e \<and> starttime (config s) = Some b"
  then have "endtime (config s) = Some e" "starttime (config s) = Some b" by simp_all
  from custom_cycle[OF assms this, of now]
  show "\<exists>s' r. onConfigChange now s = Completed s'
               \<and> requests s' = requests s @ [r]
               \<and> req_endtime r = e \<and> req_starttime r = b
               \<and> autoUpdateTimeout s' = Null"
    by fastforce
next
  fix opts :: options assume o: "opt_config opts = no_keys"
  then show "timemode (config (initial_app opts)) = ''pasthour''"
    by (simp add: default_mode no_keys_def)
next
  fix opts :: options assume o: "opt_config opts = no_keys" and el: "opt_configEl opts"
  then have m: "timemode (config (initial_app opts)) \<noteq> ''realtime''"
    "timemode (config (initial_app opts)) \<noteq> ''pastday''"
    by (simp_all add: default_mode no_keys_def)
  from o have "endtime (config (initial_app opts)) = None \<or> starttime (config (initial_app opts)) = None"
    by (simp add: initial_app_def Util_extend_def default_config_def no_keys_def)
  from custom_cycle_null[OF m this, of now]
  have t: "\<exists>s1. onConfigChange now (initial_app opts) = Thrown TypeError s1 \<and> requests s1 = []"
    by (auto simp: initial_app_def)
  from o have "fst (render (config (initial_app opts)) blank_view) = None"
    by (simp add: render_def formatDate_def initial_app_def Util_extend_def default_config_def
          no_keys_def)
  with t el show "\<exists>s1. initialize opts now = Started (Thrown TypeError s1) \<and> requests s1 = []"
    by (simp add: initialize_def)
next
  fix opts :: options assume "\<not> opt_configEl opts"
  then show "initialize opts now = NotStarted SyntaxError"
    by (simp add: initialize_def)
qed

theorem custom_branch_needs_dates_witness:
  "timemode (config (initial_app (mode_options ''pasthour''))) \<noteq> ''realtime''
   \<and> timemode (config (initial_app (mode_options ''pasthour''))) \<noteq> ''pastday''
   \<and> (endtime (config (initial_app (mode_options ''pasthour''))) = None
        \<or> starttime (config (initial_app (mode_options ''pasthour''))) = None)
   \<and> (\<exists>s1. onConfigChange (Date 1609459380000) (initial_app (mode_options ''pasthour''))
               = Thrown TypeError s1
          \<and> requests s1 = requests (initial_app (mode_options ''pasthour'')))
   \<and> timemode (config (initial_app (custom_options (Some (Date 1609459200000))
                                                       (Some (Date 1609459500000))))) = ''custom''
   \<and> (\<exists>s' r. onConfigChange (Date 1609459380000)
                   (initial_app (custom_options (Some (Date 1609459200000))
                                                (Some (Date 1609459500000))))
                 = Completed s'
          \<and> requests s' = requests (initial_app (custom_options (Some (Date 1609459200000))
                                                                  (Some (Date 1609459500000)))) @ [r]
          \<and> req_endtime r = Date 1609459500000 \<and> req_starttime r = Date 1609459200000
          \<and> autoUpdateTimeout s' = Null)
   \<and> opt_config (mode_options ''pasthour''\<lparr>opt_config := no_keys\<rparr>) = no_keys
   \<and> opt_configEl (mode_options ''pasthour''\<lparr>opt_config := no_keys\<rparr>)
   \<and> (\<exists>s1. initialize (mode_options ''pasthour''\<lparr>opt_config := no_keys\<rparr>) (Date 1609459380000)
               = Started (Thrown TypeError s1) \<and> requests s1 = [])
   \<and> opt_config (mode_options ''pasthour''\<lparr>opt_config := no_keys, opt_configEl := False\<rparr>) = no_keys
   \<and> \<not> opt_configEl (mode_options ''pasthour''\<lparr>opt_config := no_keys, opt_configEl := False\<rparr>)
   \<and> initialize (mode_options ''pasthour''\<lparr>opt_config := no_keys, opt_configEl := False\<rparr>)
                  (Date 1609459380000) = NotStarted SyntaxError"
proof -
  define s where "s = initial_app (mode_options ''pasthour'')"
  define c where "c = initial_app (custom_options (Some (Date 1609459200000))
                                                   (Some (Date 1609459500000)))"
  have s1: "timemode (config s) \<noteq> ''realtime''" and s2: "timemode (config s) \<noteq> ''pastday''"
    and s3: "endtime (config s) = None \<or> starttime (config s) = None"
    by (simp_all add: s_def initial_app_def mode_options_def Util_extend_def no_keys_def
                      default_config_def)
  have c0: "timemode (config c) = ''custom''"
    and c3: "endtime (config c) = Some (Date 1609459500000)
             \<and> starttime (config c) = Some (Date 1609459200000)"
    by (simp_all add: c_def initial_app_def custom_options_def Util_extend_def no_keys_def)
  from c0 have c1: "timemode (config c) \<noteq> ''realtime''" and c2: "timemode (config c) \<noteq> ''pastday''"
    by simp_all
  have o: "opt_config (mode_options ''pasthour''\<lparr>opt_config := no_keys\<rparr>) = no_keys" by simp
  have oe: "opt_configEl (mode_options ''pasthour''\<lparr>opt_config := no_keys\<rparr>)"
    by (simp add: mode_options_def)
  have p: "opt_config (mode_options ''pasthour''\<lparr>opt_config := no_keys, opt_configEl := False\<rparr>)
           = no_keys" by simp
  have pe: "\<not> opt_configEl (mode_options ''pasthour''\<lparr>opt_config := no_keys, opt_configEl := False\<rparr>)"
    by simp
  note a = custom_branch_needs_dates[OF s1 s2, of "Date 1609459380000"]
  note b = custom_branch_needs_dates[OF c1 c2, of "Date 1609459380000"]
  note r1 = mp[OF conjunct1[OF a] s3]
  note r2 = mp[OF spec[OF spec[OF conjunct1[OF conjunct2[OF b]]]] c3]
  note r3 = mp[OF conjunct1[OF conjunct2[OF mp[OF spec[OF conjunct2[OF conjunct2[OF a]]] o]]] oe]
  note r4 = mp[OF conjunct2[OF conjunct2[OF mp[OF spec[OF conjunct2[OF conjunct2[OF a]]] p]]] pe]
  show ?thesis
    using s1 s2 s3 r1 c0 r2 o oe r3 p pe r4 unfolding s_def c_def by (intro conjI)
qed

text \<open>The controller never has more than one timer pending.\<close>

lemma clearTimeout_Nil: "clearTimeout h [] = []"
  by (cases h) simp_all

lemma one_timer_cases:
  "one_timer s \<longleftrightarrow> timers s = [] \<or> (\<exists>h d. timers s = [(h, d)] \<and> autoUpdateTimeout s = Timeout h)"
proof
  assume "one_timer s"
  then show "timers s = [] \<or> (\<exists>h d. timers s = [(h, d)] \<and> autoUpdateTimeout s = Timeout h)"
    by (cases "autoUpdateTimeout s"; cases "timers s") (auto simp add: one_timer_def)
next
  assume "timers s = [] \<or> (\<exists>h d. timers s = [(h, d)] \<and> autoUpdateTimeout s = Timeout h)"
  then show "one_timer s" by (auto simp add: one_timer_def)
qed

lemma one_timer_cleared:
  assumes "one_timer s"
  shows "clearTimeout (autoUpdateTimeout s) (timers s) = []"
  using assms unfolding one_timer_cases by (auto simp add: clearTimeout_Nil)

lemma one_timer_Null: "one_timer s \<Longrightarrow> autoUpdateTimeout s = Null \<Longrightarrow> timers s = []"
  unfolding one_timer_cases by auto

lemma one_timer_onConfigChange:
  assumes "one_timer s"
  shows "one_timer (state_of (onConfigChange now s))"
  using one_timer_cleared[OF assms] one_timer_Null[OF assms]
  by (cases "autoUpdateTimeout s")
     (auto simp add: onConfigChange_def Let_def setTimeout_def one_timer_def
           split: option.splits)

lemma one_timer_fired:
  assumes "one_timer s"
  shows "one_timer (s\<lparr>timers := filter (\<lambda>(k, d). k \<noteq> h) (timers s)\<rparr>)"
proof -
  from assms consider "timers s = []"
    | k d where "timers s = [(k, d)]" "autoUpdateTimeout s = Timeout k"
    unfolding one_timer_cases by auto
  then show ?thesis
  proof cases
    case 1
    then show ?thesis by (simp add: one_timer_def)
  next
    case 2
    then show ?thesis by (cases "k = h") (simp_all add: one_timer_def)
  qed
qed

lemma one_timer_step:
  assumes "one_timer s"
  shows "one_timer (step srt e s)"
proof (cases e)
  case (ConfigChange p now)
  have "one_timer (s\<lparr>config := Util_extend (config s) p\<rparr>)"
    using assms unfolding one_timer_cases by simp
  then show ?thesis unfolding ConfigChange step.simps by (rule one_timer_onConfigChange)
next
  case (TimerFires h now)
  show ?thesis unfolding TimerFires step.simps onAutoUpdate_def
    by (rule one_timer_onConfigChange[OF one_timer_fired[OF assms]])
next
  case (FetchLoaded k response)
  then show ?thesis using assms unfolding one_timer_cases
    by (simp add: onTimeseriesLoad_def Let_def)
next
  case (FetchFailed k)
  then show ?thesis using assms unfolding one_timer_cases
    by (simp add: onTimeseriesError_def)
next
  case (ReferenceLoaded m)
  then show ?thesis using assms unfolding one_timer_cases by simp
qed

lemma one_timer_run:
  assumes "one_timer s"
  shows "one_timer (run srt es s)"
  using assms by (induction es arbitrary: s) (simp_all add: one_timer_step)

lemma one_timer_initial: "one_timer (initial_app opts)"
  by (simp add: one_timer_def initial_app_def)

lemma one_timer_reachable: "one_timer (run srt es (initial_app opts))"
  by (rule one_timer_run[OF one_timer_initial])

lemma roundUp_sample:
  "roundUpToNearestNMinutes (Date 1609459380000) 1 = Date 1609459440000"
  "roundUpToNearestNMinutes (Date 1609459440000) 5 = Date 1609459500000"
  by code_simp+

lemma render_throws:
  "fst (render c v) =
     (if endtime c = Some InvalidDate \<or> starttime c = Some InvalidDate then Some RangeError
      else None)"
  by (auto simp add: render_def formatDate_def Let_def split: option.splits jsdate.splits)

lemma sample_start:
  "initialize (mode_options m) now = Started (onConfigChange now (initial_app (mode_options m)))"
  by (simp add: initialize_def render_throws mode_options_def initial_app_def
        Util_extend_def default_config_def no_keys_def)

text \<open>
  C2, as stated: after a failed fetch no timer is armed for the cycle, also in realtime and
  pastday mode. A controller started in realtime mode arms its timer when it issues the
  fetch, and the failure handler leaves it armed.
\<close>

theorem timer_survives_failed_fetch:
  "initialize (mode_options ''realtime'') (Date 1609459380000)
     = Started (onConfigChange (Date 1609459380000) (initial_app (mode_options ''realtime'')))
   \<and> autoUpdateTimeout (onTimeseriesError
        (state_of (onConfigChange (Date 1609459380000) (initial_app (mode_options ''realtime'')))))
       = Timeout 0
   \<and> timers (onTimeseriesError
        (state_of (onConfigChange (Date 1609459380000) (initial_app (mode_options ''realtime'')))))
       = [(0, 300000)]"
proof (intro conjI)
  show "initialize (mode_options ''realtime'') (Date 1609459380000)
     = Started (onConfigChange (Date 1609459380000) (initial_app (mode_options ''realtime'')))"
    by (rule sample_start)
qed (simp_all add: initial_app_def mode_options_def Util_extend_def no_keys_def
        default_config_def onConfigChange_def onTimeseriesError_def setTimeout_def Let_def
        roundUp_sample TimeClip_def maxTime_def)

text \<open>
  C2, amended: when a fetch fails, the controller clears the loading state and replaces the
  published result set with the empty set, and it neither arms nor cancels a timer, in
  whatever state the failure finds it. When the failure is the next event after the
  configuration change that started the cycle, then in realtime and pastday mode the one
  pending timer is the timer of 300000 ms that the cycle armed when it issued the fetch, and
  it stays armed; in the other modes no timer is pending.
\<close>

theorem failed_fetch:
  assumes "one_timer s" and "onConfigChange now s = Completed s1"
  shows "\<not> loading (onTimeseriesError s1)
       \<and> timeseries (onTimeseriesError s1) = []
       \<and> (timemode (config s) = ''realtime'' \<or> timemode (config s) = ''pastday'' \<longrightarrow>
            autoUpdateTimeout (onTimeseriesError s1) = Timeout (next_timer s)
            \<and> timers (onTimeseriesError s1) = [(next_timer s, 300000)])
       \<and> (timemode (config s) \<noteq> ''realtime'' \<and> timemode (config s) \<noteq> ''pastday'' \<longrightarrow>
            autoUpdateTimeout (onTimeseriesError s1) = Null
            \<and> timers (onTimeseriesError s1) = [])
       \<and> (\<forall>u k. \<not> loading (step srt (FetchFailed k) u)
              \<and> timeseries (step srt (FetchFailed k) u) = []
              \<and> autoUpdateTimeout (step srt (FetchFailed k) u) = autoUpdateTimeout u
              \<and> timers (step srt (FetchFailed k) u) = timers u)"
  using assms(2) one_timer_cleared[OF assms(1)] one_timer_Null[OF assms(1)]
  by (cases "autoUpdateTimeout s")
     (auto simp add: onConfigChange_def onTimeseriesError_def Let_def setTimeout_def
           split: option.splits if_splits)

lemma Completed_state_of: "\<exists>s'. r = Completed s' \<Longrightarrow> r = Completed (state_of r)"
  by auto

theorem failed_fetch_witness:
  "one_timer (initial_app (mode_options ''realtime''))
   \<and> onConfigChange (Date 1609459380000) (initial_app (mode_options ''realtime''))
     = Completed (state_of (onConfigChange (Date 1609459380000)
                                           (initial_app (mode_options ''realtime''))))
   \<and> (timemode (config (initial_app (mode_options ''realtime''))) = ''realtime''
        \<or> timemode (config (initial_app (mode_options ''realtime''))) = ''pastday'')
   \<and> \<not> loading (onTimeseriesError (state_of (onConfigChange (Date 1609459380000)
                                           (initial_app (mode_options ''realtime'')))))
   \<and> timeseries (onTimeseriesError (state_of (onConfigChange (Date 1609459380000)
                                           (initial_app (mode_options ''realtime''))))) = []
   \<and> autoUpdateTimeout (onTimeseriesError (state_of (onConfigChange (Date 1609459380000)
                                           (initial_app (mode_options ''realtime'')))))
       = Timeout (next_timer (initial_app (mode_options ''realtime'')))
   \<and> timers (onTimeseriesError (state_of (onConfigChange (Date 1609459380000)
                                           (initial_app (mode_options ''realtime'')))))
       = [(next_timer (initial_app (mode_options ''realtime'')), 300000)]
   \<and> one_timer (initial_app (custom_options (Some (Date 1609459200000))
                                             (Some (Date 1609459500000))))
   \<and> onConfigChange (Date 1609459380000)
         (initial_app (custom_options (Some (Date 1609459200000)) (Some (Date 1609459500000))))
     = Completed (state_of (onConfigChange (Date 1609459380000)
         (initial_app (custom_options (Some (Date 1609459200000)) (Some (Date 1609459500000))))))
   \<and> (timemode (config (initial_app (custom_options (Some (Date 1609459200000))
                                                        (Some (Date 1609459500000))))) \<noteq> ''realtime''
        \<and> timemode (config (initial_app (custom_options (Some (Date 1609459200000))
                                                        (Some (Date 1609459500000))))) \<noteq> ''pastday'')
   \<and> autoUpdateTimeout (onTimeseriesError (state_of (onConfigChange (Date 1609459380000)
         (initial_app (custom_options (Some (Date 1609459200000)) (Some (Date 1609459500000)))))))
       = Null
   \<and> timers (onTimeseriesError (state_of (onConfigChange (Date 1609459380000)
         (initial_app (custom_options (Some (Date 1609459200000)) (Some (Date 1609459500000)))))))
       = []"
proof -
  define s where "s = initial_app (mode_options ''realtime'')"
  define c where "c = initial_app (custom_options (Some (Date 1609459200000))
                                                   (Some (Date 1609459500000)))"
  have os: "one_timer s" unfolding s_def by (rule one_timer_initial)
  have oc: "one_timer c" unfolding c_def by (rule one_timer_initial)
  have m: "timemode (config s) = ''realtime'' \<or> timemode (config s) = ''pastday''"
    by (simp add: s_def initial_app_def mode_options_def Util_extend_def no_keys_def)
  have "timemode (config s) = ''realtime'' \<and> (1::int) = 1 \<and> (900000::int) = 900000
     \<or> timemode (config s) = ''pastday'' \<and> (1::int) = 5 \<and> (900000::int) = 86400000"
    by (simp add: s_def initial_app_def mode_options_def Util_extend_def no_keys_def)
  moreover have "(0::int) < 1609459440000" "1609459440000 \<le> maxTime"
    by (simp_all add: maxTime_def)
  ultimately have "\<exists>s'. onConfigChange (Date 1609459380000) s = Completed s'"
    using live_cycle[OF _ roundUp_sample(1), of s 900000] by blast
  then have hs: "onConfigChange (Date 1609459380000) s
                 = Completed (state_of (onConfigChange (Date 1609459380000) s))"
    by (rule Completed_state_of)
  have cm: "timemode (config c) \<noteq> ''realtime'' \<and> timemode (config c) \<noteq> ''pastday''"
    and ce: "endtime (config c) = Some (Date 1609459500000)"
    and cb: "starttime (config c) = Some (Date 1609459200000)"
    by (simp_all add: c_def initial_app_def custom_options_def Util_extend_def no_keys_def)
  from custom_cycle[OF conjunct1[OF cm] conjunct2[OF cm] ce cb, of "Date 1609459380000"]
  have "\<exists>s'. onConfigChange (Date 1609459380000) c = Completed s'" by blast
  then have hc: "onConfigChange (Date 1609459380000) c
                 = Completed (state_of (onConfigChange (Date 1609459380000) c))"
    by (rule Completed_state_of)
  note a = failed_fetch[OF os hs]
  note b = failed_fetch[OF oc hc]
  note a1 = conjunct1[OF a]
  note a2 = conjunct1[OF conjunct2[OF a]]
  note a3 = mp[OF conjunct1[OF conjunct2[OF conjunct2[OF a]]] m]
  note b4 = mp[OF conjunct1[OF conjunct2[OF conjunct2[OF conjunct2[OF b]]]] cm]
  show ?thesis
    using os hs m a1 a2 conjunct1[OF a3] conjunct2[OF a3] oc hc conjunct1[OF cm] conjunct2[OF cm]
      conjunct1[OF b4] conjunct2[OF b4]
    unfolding s_def c_def by (intro conjI)
qed

text \<open>
  A realtime cycle that a custom cycle supersedes before its fetch fails: the later cycle
  has cancelled the timer, and the failure finds none and arms none.
\<close>

lemma superseded_failure:
  "autoUpdateTimeout (run srt [ConfigChange (no_keys\<lparr>set_endtime := Some (Some (Date 1609459500000)),
                                                    set_starttime := Some (Some (Date 1609459200000)),
                                                    set_timemode := Some ''custom''\<rparr>)
                                          (Date 1609459440000),
                             FetchFailed 0]
        (state_of (onConfigChange (Date 1609459380000) (initial_app (mode_options ''realtime'')))))
     = Null
   \<and> timers (run srt [ConfigChange (no_keys\<lparr>set_endtime := Some (Some (Date 1609459500000)),
                                             set_starttime := Some (Some (Date 1609459200000)),
                                             set_timemode := Some ''custom''\<rparr>)
                                   (Date 1609459440000),
                      FetchFailed 0]
        (state_of (onConfigChange (Date 1609459380000) (initial_app (mode_options ''realtime'')))))
     = []"
  by (simp add: initial_app_def mode_options_def Util_extend_def no_keys_def
        default_config_def onConfigChange_def onTimeseriesError_def setTimeout_def Let_def
        roundUp_sample TimeClip_def maxTime_def)

lemma run_append: "run srt (es @ fs) s = run srt fs (run srt es s)"
  by (induction es arbitrary: s) simp_all

lemma timeseries_onConfigChange:
  "timeseries (state_of (onConfigChange now s)) = timeseries s"
  by (cases "autoUpdateTimeout s")
     (auto simp add: onConfigChange_def Let_def setTimeout_def split: option.splits)

lemma timeseries_step:
  "timeseries (step srt e s) =
     (case e of
        FetchLoaded k response \<Rightarrow> srt compare_series (map (copy_metadata (observatories s)) response)
      | FetchFailed k \<Rightarrow> []
      | _ \<Rightarrow> timeseries s)"
  by (cases e)
     (simp_all add: timeseries_onConfigChange onAutoUpdate_def onTimeseriesLoad_def
                    onTimeseriesError_def Let_def)

lemma timeseries_quiet_run:
  assumes "\<forall>e \<in> set fs. \<not> completion e"
  shows "timeseries (run srt fs s) = timeseries s"
  using assms
proof (induction fs arbitrary: s)
  case Nil
  show ?case by simp
next
  case (Cons e fs)
  then have e: "\<not> completion e" and fs: "\<forall>e \<in> set fs. \<not> completion e" by simp_all
  from e have "timeseries (step srt e s) = timeseries s"
    by (cases e) (simp_all add: timeseries_step del: step.simps)
  with Cons.IH[OF fs, of "step srt e s"] show ?case by simp
qed

text \<open>
  C1, amended: the controller keeps no cycle token. Every successful completion, of
  whichever call, replaces the published result set with its own records (reference
  metadata copied in as the collection then has it, and sorted by the engine with the
  comparison function of the controller); every failed completion replaces it with the
  empty set; no other event touches it. So after any run the published set is that of the
  completion that arrived last, whichever cycle issued its call.
\<close>

theorem every_completion_is_published:
  "timeseries (step srt (FetchLoaded k response) s)
     = srt compare_series (map (copy_metadata (observatories s)) response)
   \<and> timeseries (step srt (FetchFailed k) s) = []
   \<and> (\<not> completion e \<longrightarrow> timeseries (step srt e s) = timeseries s)
   \<and> ((\<forall>e \<in> set fs. \<not> completion e) \<longrightarrow>
        timeseries (run srt (es @ FetchLoaded k response # fs) s)
          = srt compare_series (map (copy_metadata (observatories (run srt es s))) response)
        \<and> timeseries (run srt (es @ FetchFailed k # fs) s) = []
        \<and> timeseries (run srt fs s) = timeseries s)"
proof (intro conjI impI)
  show "timeseries (step srt (FetchLoaded k response) s)
     = srt compare_series (map (copy_metadata (observatories s)) response)"
    by (simp add: timeseries_step del: step.simps)
  show "timeseries (step srt (FetchFailed k) s) = []"
    by (simp add: timeseries_step del: step.simps)
  show "timeseries (step srt e s) = timeseries s" if "\<not> completion e"
    using that by (cases e) (simp_all add: timeseries_step del: step.simps)
next
  assume q: "\<forall>e \<in> set fs. \<not> completion e"
  show "timeseries (run srt (es @ FetchLoaded k response # fs) s)
          = srt compare_series (map (copy_metadata (observatories (run srt es s))) response)"
    by (simp add: run_append timeseries_quiet_run[OF q] timeseries_step del: step.simps)
  show "timeseries (run srt (es @ FetchFailed k # fs) s) = []"
    by (simp add: run_append timeseries_quiet_run[OF q] timeseries_step del: step.simps)
  show "timeseries (run srt fs s) = timeseries s"
    by (rule timeseries_quiet_run[OF q])
qed

text \<open>
  C1, as stated: the completion of an earlier fetch that arrives after the completion of a
  later one is discarded. A controller starts in realtime mode (call 0), the mode changes to
  pastday (call 1), call 1 completes and its record is published, then call 0 completes:
  the record of call 0 replaces it.
\<close>

theorem stale_completion_overwrites:
  "initialize (mode_options ''realtime'') (Date 1609459380000)
     = Started (onConfigChange (Date 1609459380000) (initial_app (mode_options ''realtime'')))
   \<and> enabled (FetchLoaded 1 [sample_series ''later'' ''BOU'' None])
       (run sort_by
          [ConfigChange (no_keys\<lparr>set_timemode := Some ''pastday''\<rparr>) (Date 1609459440000)]
          (state_of (onConfigChange (Date 1609459380000) (initial_app (mode_options ''realtime'')))))
   \<and> timeseries
       (run sort_by
          [ConfigChange (no_keys\<lparr>set_timemode := Some ''pastday''\<rparr>) (Date 1609459440000),
           FetchLoaded 1 [sample_series ''later'' ''BOU'' None]]
          (state_of (onConfigChange (Date 1609459380000) (initial_app (mode_options ''realtime'')))))
       = [sample_series ''later'' ''BOU'' None]
   \<and> enabled (FetchLoaded 0 [sample_series ''earlier'' ''BOU'' None])
       (run sort_by
          [ConfigChange (no_keys\<lparr>set_timemode := Some ''pastday''\<rparr>) (Date 1609459440000),
           FetchLoaded 1 [sample_series ''later'' ''BOU'' None]]
          (state_of (onConfigChange (Date 1609459380000) (initial_app (mode_options ''realtime'')))))
   \<and> timeseries
       (run sort_by
          [ConfigChange (no_keys\<lparr>set_timemode := Some ''pastday''\<rparr>) (Date 1609459440000),
           FetchLoaded 1 [sample_series ''later'' ''BOU'' None],
           FetchLoaded 0 [sample_series ''earlier'' ''BOU'' None]]
          (state_of (onConfigChange (Date 1609459380000) (initial_app (mode_options ''realtime'')))))
       = [sample_series ''earlier'' ''BOU'' None]"
proof (intro conjI)
  show "initialize (mode_options ''realtime'') (Date 1609459380000)
     = Started (onConfigChange (Date 1609459380000) (initial_app (mode_options ''realtime'')))"
    by (rule sample_start)
qed (simp_all add: initial_app_def mode_options_def Util_extend_def no_keys_def
        default_config_def onConfigChange_def onTimeseriesLoad_def setTimeout_def Let_def
        roundUp_sample TimeClip_def maxTime_def sort_by_def copy_metadata_def sample_series_def)

theorem every_completion_is_published_witness:
  "\<not> completion (ReferenceLoaded sample_reference)
   \<and> timeseries (step sort_by (ReferenceLoaded sample_reference)
        (initial_app (mode_options ''realtime'')\<lparr>timeseries := [sample_series ''shown'' ''BOU'' None]\<rparr>))
       = [sample_series ''shown'' ''BOU'' None]
   \<and> \<not> completion (TimerFires 1 (Date 1609459740000))
   \<and> timeseries
       (run sort_by
          ([ReferenceLoaded sample_reference,
            ConfigChange (no_keys\<lparr>set_timemode := Some ''pastday''\<rparr>) (Date 1609459440000),
            FetchLoaded 1 [sample_series ''later'' ''BOU'' None]]
           @ FetchLoaded 0 [sample_series ''earlier'' ''BOU'' None]
           # [TimerFires 1 (Date 1609459740000)])
          (state_of (onConfigChange (Date 1609459380000) (initial_app (mode_options ''realtime'')))))
       = [\<lparr>ts_id = ''earlier'',
           ts_metadata = \<lparr>m_observatory = ''BOU'', m_name = Some ''Boulder'',
                           m_latitude = Some 40, m_longitude = Some (- 105)\<rparr>\<rparr>]
   \<and> timeseries
       (run sort_by
          ([ReferenceLoaded sample_reference,
            ConfigChange (no_keys\<lparr>set_timemode := Some ''pastday''\<rparr>) (Date 1609459440000),
            FetchLoaded 1 [sample_series ''later'' ''BOU'' None]]
           @ FetchFailed 0
           # [TimerFires 1 (Date 1609459740000)])
          (state_of (onConfigChange (Date 1609459380000) (initial_app (mode_options ''realtime'')))))
       = []"
proof -
  define s0 where
    "s0 = state_of (onConfigChange (Date 1609459380000) (initial_app (mode_options ''realtime'')))"
  define es where
    "es = [ReferenceLoaded sample_reference,
           ConfigChange (no_keys\<lparr>set_timemode := Some ''pastday''\<rparr>) (Date 1609459440000),
           FetchLoaded 1 [sample_series ''later'' ''BOU'' None]]"
  define u where
    "u = initial_app (mode_options ''realtime'')\<lparr>timeseries := [sample_series ''shown'' ''BOU'' None]\<rparr>"
  have h1: "\<not> completion (ReferenceLoaded sample_reference)" by simp
  have h2: "\<forall>e \<in> set [TimerFires 1 (Date 1609459740000)]. \<not> completion e" by simp
  note w = every_completion_is_published[of sort_by 0 "[sample_series ''earlier'' ''BOU'' None]" s0
             "ReferenceLoaded sample_reference" "[TimerFires 1 (Date 1609459740000)]" es]
  note v = every_completion_is_published[of sort_by 0 "[]" u
             "ReferenceLoaded sample_reference" "[]" "[]"]
  from mp[OF conjunct1[OF conjunct2[OF conjunct2[OF v]]] h1]
  have c1: "timeseries (step sort_by (ReferenceLoaded sample_reference) u)
            = [sample_series ''shown'' ''BOU'' None]"
    by (simp add: u_def)
  note q = mp[OF conjunct2[OF conjunct2[OF conjunct2[OF w]]] h2]
  have obs: "observatories (run sort_by es s0) = sample_reference"
    unfolding es_def s0_def
    by (simp add: initial_app_def mode_options_def Util_extend_def no_keys_def
        default_config_def onConfigChange_def onTimeseriesLoad_def setTimeout_def Let_def
        roundUp_sample TimeClip_def maxTime_def)
  have c2: "timeseries (run sort_by (es @ FetchLoaded 0 [sample_series ''earlier'' ''BOU'' None]
                                      # [TimerFires 1 (Date 1609459740000)]) s0)
       = [\<lparr>ts_id = ''earlier'',
           ts_metadata = \<lparr>m_observatory = ''BOU'', m_name = Some ''Boulder'',
                           m_latitude = Some 40, m_longitude = Some (- 105)\<rparr>\<rparr>]"
    unfolding conjunct1[OF q] obs
    by (simp add: sort_by_def copy_metadata_def sample_series_def sample_reference_def)
  note c3 = conjunct1[OF conjunct2[OF q]]
  have h3: "\<not> completion (TimerFires 1 (Date 1609459740000))" by simp
  show ?thesis
    using h1 c1 h3 c2 c3 unfolding s0_def es_def u_def by (intro conjI)
qed

section \<open>The order of the series\<close>

lemma compare_series_truthy:
  assumes "m_latitude (ts_metadata a) = Some x" "m_latitude (ts_metadata b) = Some y"
    "x \<noteq> 0" "y \<noteq> 0"
  shows "compare_series a b = y - x"
  using assms by (simp add: compare_series_def Let_def)

lemma compare_series_code:
  assumes "\<not> truthy (m_latitude (ts_metadata a)) \<or> \<not> truthy (m_latitude (ts_metadata b))"
  shows "compare_series a b =
     (if str_less (m_observatory (ts_metadata a)) (m_observatory (ts_metadata b)) then - 1
      else if str_less (m_observatory (ts_metadata b)) (m_observatory (ts_metadata a)) then 1
      else 0)"
  using assms by (auto simp add: compare_series_def Let_def)

text \<open>
  C6: two records that both have a defined latitude are ordered by latitude, the higher
  first. The comparison function tests the latitudes for truthiness, not for being defined,
  and 0 is a defined latitude that is falsy: a record on the equator with code AAA and a
  record at latitude 10 with code BBB are compared by code, and the record at latitude 0
  comes first, also in the result set that the controller publishes.
\<close>

theorem latitude_zero_sorts_by_code:
  "compare_series (sample_series ''a'' ''AAA'' (Some 0)) (sample_series ''b'' ''BBB'' (Some 10)) = - 1
   \<and> sort_by compare_series [sample_series ''b'' ''BBB'' (Some 10),
                              sample_series ''a'' ''AAA'' (Some 0)]
       = [sample_series ''a'' ''AAA'' (Some 0), sample_series ''b'' ''BBB'' (Some 10)]
   \<and> timeseries (onTimeseriesLoad sort_by [sample_series ''b'' ''BBB'' (Some 10),
                                              sample_series ''a'' ''AAA'' (Some 0)]
                                     (initial_app (mode_options ''realtime'')))
       = [sample_series ''a'' ''AAA'' (Some 0), sample_series ''b'' ''BBB'' (Some 10)]"
  by (simp add: compare_series_def sample_series_def sort_by_def Let_def onTimeseriesLoad_def
        copy_metadata_def initial_app_def mode_options_def)

text \<open>The two examples of the specification, with latitudes 40 and 20 and with codes BOU and ARC.\<close>

lemma spec_examples:
  "sort_by compare_series [sample_series ''a'' ''AAA'' (Some 20), sample_series ''b'' ''BBB'' (Some 40)]
     = [sample_series ''b'' ''BBB'' (Some 40), sample_series ''a'' ''AAA'' (Some 20)]"
  "sort_by compare_series [sample_series ''a'' ''BOU'' None, sample_series ''b'' ''ARC'' None]
     = [sample_series ''b'' ''ARC'' None, sample_series ''a'' ''BOU'' None]"
  by (simp_all add: compare_series_def sample_series_def sort_by_def Let_def)

section \<open>The selections of the view\<close>

text \<open>
  C8: a click on a channel (an element that carries a non-empty \<^verbatim>\<open>data-id\<close>) sets the
  channel and sets the observatory to \<^verbatim>\<open>null\<close>; a click on an observatory sets the
  observatory and sets the channel to \<^verbatim>\<open>null\<close>; neither touches the times or the time
  mode; so after either click at most one of channel and observatory is not \<^verbatim>\<open>null\<close>.
\<close>

theorem selection_clears_the_other:
  assumes "id' \<noteq> None" and "id' \<noteq> Some []"
  shows "channel (Model_set (onChannelClick id') c) = id'
       \<and> observatory (Model_set (onChannelClick id') c) = None
       \<and> endtime (Model_set (onChannelClick id') c) = endtime c
       \<and> starttime (Model_set (onChannelClick id') c) = starttime c
       \<and> timemode (Model_set (onChannelClick id') c) = timemode c
       \<and> observatory (Model_set (onObservatoryClick id') c) = id'
       \<and> channel (Model_set (onObservatoryClick id') c) = None
       \<and> endtime (Model_set (onObservatoryClick id') c) = endtime c
       \<and> starttime (Model_set (onObservatoryClick id') c) = starttime c
       \<and> timemode (Model_set (onObservatoryClick id') c) = timemode c
       \<and> \<not> (channel (Model_set (onChannelClick id') c) \<noteq> None
            \<and> observatory (Model_set (onChannelClick id') c) \<noteq> None)
       \<and> \<not> (channel (Model_set (onObservatoryClick id') c) \<noteq> None
            \<and> observatory (Model_set (onObservatoryClick id') c) \<noteq> None)"
  using assms
  by (simp add: onChannelClick_def onObservatoryClick_def Model_set_def Util_extend_def no_keys_def)

theorem selection_clears_the_other_witness:
  "Some ''H'' \<noteq> (None :: string option) \<and> Some ''H'' \<noteq> Some []
   \<and> channel (default_config\<lparr>observatory := Some ''BOU''\<rparr>) = Some ''H''
   \<and> observatory (default_config\<lparr>observatory := Some ''BOU''\<rparr>) = Some ''BOU''
   \<and> channel (Model_set (onChannelClick (Some ''H''))
                (default_config\<lparr>observatory := Some ''BOU''\<rparr>)) = Some ''H''
   \<and> observatory (Model_set (onChannelClick (Some ''H''))
                (default_config\<lparr>observatory := Some ''BOU''\<rparr>)) = None
   \<and> observatory (Model_set (onObservatoryClick (Some ''H''))
                (default_config\<lparr>observatory := Some ''BOU''\<rparr>)) = Some ''H''
   \<and> channel (Model_set (onObservatoryClick (Some ''H''))
                (default_config\<lparr>observatory := Some ''BOU''\<rparr>)) = None"
proof -
  have h1: "Some ''H'' \<noteq> (None :: string option)" and h2: "Some ''H'' \<noteq> Some []"
    by simp_all
  have c: "channel (default_config\<lparr>observatory := Some ''BOU''\<rparr>) = Some ''H''"
    "observatory (default_config\<lparr>observatory := Some ''BOU''\<rparr>) = Some ''BOU''"
    by (simp_all add: default_config_def)
  note w = selection_clears_the_other[OF h1 h2, of "default_config\<lparr>observatory := Some ''BOU''\<rparr>"]
  note w1 = conjunct1[OF w]
  note w2 = conjunct1[OF conjunct2[OF w]]
  note w6 = conjunct1[OF conjunct2[OF conjunct2[OF conjunct2[OF conjunct2[OF conjunct2[OF w]]]]]]
  note w7 = conjunct1[OF conjunct2[OF conjunct2[OF conjunct2[OF conjunct2[OF conjunct2[OF conjunct2[OF w]]]]]]]
  show ?thesis using h1 h2 c w1 w2 w6 w7 by (intro conjI)
qed

text \<open>What a submission in custom mode does when both inputs read as valid dates.\<close>

lemma onTimeChange_valid:
  assumes "timeCustom_checked v" and "target \<noteq> TimeCustom"
    and "parseDate P (startTime_value v) = Some (Date b)"
    and "parseDate P (endTime_value v) = Some (Date e)"
  shows "onTimeChange P target v =
     (if b > e then
        (v\<lparr>timeEl_custom := True, timeError := Some ''Start Time must come before End Time.''\<rparr>,
         None)
      else if e - b > 2678400000 then
        (v\<lparr>timeEl_custom := True, timeError := Some ''Please select less than 1 month of data.''\<rparr>,
         None)
      else
        (v\<lparr>timeEl_custom := True, timeError := None\<rparr>,
         Some (no_keys\<lparr>set_endtime := Some (Some (Date e)),
                        set_starttime := Some (Some (Date b)),
                        set_timemode := Some ''custom''\<rparr>)))"
  using assms
  by (simp add: onTimeChange_def Let_def validateTime_def timeOrder_def validateRange_def
        setTimeError_def)

lemma pick_radio:
  "onTimeChange P TimeRealtime (check TimeRealtime v)
     = (check TimeRealtime v\<lparr>timeEl_custom := False\<rparr>,
        Some (no_keys\<lparr>set_timemode := Some ''realtime''\<rparr>))"
  "onTimeChange P TimePastday (check TimePastday v)
     = (check TimePastday v\<lparr>timeEl_custom := False\<rparr>,
        Some (no_keys\<lparr>set_timemode := Some ''pastday''\<rparr>))"
  "onTimeChange P TimeCustom (check TimeCustom v)
     = (check TimeCustom v\<lparr>timeEl_custom := True\<rparr>, None)"
  by (simp_all add: onTimeChange_def check_def Let_def)

lemma set_timemode_only:
  "Model_set (Some (no_keys\<lparr>set_timemode := Some m\<rparr>)) c = c\<lparr>timemode := m\<rparr>"
  by (simp add: Model_set_def Util_extend_def no_keys_def)

lemma render_valid:
  assumes "starttime c = Some (Date b)" and "endtime c = Some (Date e)"
  shows "render c v =
     (None,
      check (if timemode c = ''realtime'' then TimeRealtime
             else if timemode c = ''pastday'' then TimePastday else TimeCustom)
            (v\<lparr>endTime_value := formatted e, startTime_value := formatted b\<rparr>))"
  using assms by (simp add: render_def formatDate_def Let_def)

lemma view_step_pick:
  "snd (view_step P PickRealtime (v, c)) = c\<lparr>timemode := ''realtime''\<rparr>"
  "snd (view_step P PickPastday (v, c)) = c\<lparr>timemode := ''pastday''\<rparr>"
  "view_step P PickCustom (v, c) = (check TimeCustom v\<lparr>timeEl_custom := True\<rparr>, c)"
  by (simp_all add: view_step_def pick_radio set_timemode_only)

lemma view_step_pick_valid:
  assumes "starttime c = Some (Date b)" and "endtime c = Some (Date e)"
  shows "view_step P PickRealtime (v, c)
     = (check TimeRealtime (v\<lparr>timeEl_custom := False, endTime_value := formatted e,
                               startTime_value := formatted b\<rparr>),
        c\<lparr>timemode := ''realtime''\<rparr>)"
    and "view_step P PickPastday (v, c)
     = (check TimePastday (v\<lparr>timeEl_custom := False, endTime_value := formatted e,
                               startTime_value := formatted b\<rparr>),
        c\<lparr>timemode := ''pastday''\<rparr>)"
  using assms
  by (simp_all add: view_step_def pick_radio set_timemode_only render_valid)
     (simp_all add: check_def)?

lemma round_trip_submit:
  assumes st: "starttime c = Some (Date b)" and en: "endtime c = Some (Date e)"
    and ord: "b \<le> e" and span: "e - b \<le> 2678400000"
    and rb: "parseDate P (formatted b) = Some (Date b)"
    and re: "parseDate P (formatted e) = Some (Date e)"
    and m: "m = PickRealtime \<or> m = PickPastday"
  shows "snd (onTimeChange P TimeUpdate (fst (view_run P [m, PickCustom] (v, c))))
           = Some (no_keys\<lparr>set_endtime := Some (Some (Date e)),
                            set_starttime := Some (Some (Date b)),
                            set_timemode := Some ''custom''\<rparr>)"
    and "snd (view_run P [m, PickCustom, ClickUpdate] (v, c)) = c\<lparr>timemode := ''custom''\<rparr>"
proof -
  define w where "w = fst (view_run P [m, PickCustom] (v, c))"
  have w: "timeCustom_checked w" "startTime_value w = formatted b" "endTime_value w = formatted e"
    using m unfolding w_def
    by (auto simp add: view_step_pick_valid[OF st en] view_step_pick check_def)
  have c2: "snd (view_run P [m, PickCustom] (v, c))
            = c\<lparr>timemode := (if m = PickRealtime then ''realtime'' else ''pastday'')\<rparr>"
    using m by (auto simp add: view_step_pick_valid[OF st en] view_step_pick)
  have t: "TimeUpdate \<noteq> TimeCustom" by simp
  have rb': "parseDate P (startTime_value w) = Some (Date b)" using rb w by simp
  have re': "parseDate P (endTime_value w) = Some (Date e)" using re w by simp
  have call: "onTimeChange P TimeUpdate w
        = (w\<lparr>timeEl_custom := True, timeError := None\<rparr>,
           Some (no_keys\<lparr>set_endtime := Some (Some (Date e)),
                          set_starttime := Some (Some (Date b)),
                          set_timemode := Some ''custom''\<rparr>))"
    using ord span by (simp add: onTimeChange_valid[OF w(1) t rb' re'])
  then show "snd (onTimeChange P TimeUpdate (fst (view_run P [m, PickCustom] (v, c))))
           = Some (no_keys\<lparr>set_endtime := Some (Some (Date e)),
                            set_starttime := Some (Some (Date b)),
                            set_timemode := Some ''custom''\<rparr>)"
    unfolding w_def by simp
  have vr: "view_run P [m, PickCustom, ClickUpdate] (v, c)
        = view_step P ClickUpdate (w, snd (view_run P [m, PickCustom] (v, c)))"
    unfolding w_def by simp
  show "snd (view_run P [m, PickCustom, ClickUpdate] (v, c)) = c\<lparr>timemode := ''custom''\<rparr>"
    unfolding vr c2 using st en
    by (simp add: view_step_def call Model_set_def Util_extend_def no_keys_def)
qed

text \<open>
  What the browser is given to read after a refill. For a stored time in the years 0 to 9999
  \<^verbatim>\<open>_formatDate\<close> writes the date and the time of day to seconds, and \<^verbatim>\<open>_parseDate\<close> hands
  \<^verbatim>\<open>new Date\<close> the same fields in the date-time format of the language standard, with
  \<^verbatim>\<open>T\<close> and \<^verbatim>\<open>Z\<close>.
\<close>

lemma digit_code: "(of_char (digit n) :: int) = 48 + n mod 10"
proof -
  have "0 \<le> n mod 10" "n mod 10 < 10" by simp_all
  then have "(48 + n mod 10) mod 256 = 48 + n mod 10" by simp
  then show ?thesis by (simp add: digit_def)
qed

lemma digit_plain:
  "digit n \<noteq> CHR ''T''" "digit n \<noteq> CHR ''Z''" "digit n \<noteq> CHR ''.''" "digit n \<noteq> CHR '' ''"
  "is_digit (digit n)"
proof -
  have r: "0 \<le> n mod 10" "n mod 10 < 10" by simp_all
  have c: "c \<noteq> digit n" if "(of_char c :: int) < 48 \<or> 57 < (of_char c :: int)" for c
    using that r digit_code[of n] by auto
  show "digit n \<noteq> CHR ''T''" using c[of "CHR ''T''"] by simp
  show "digit n \<noteq> CHR ''Z''" using c[of "CHR ''Z''"] by simp
  show "digit n \<noteq> CHR ''.''" using c[of "CHR ''.''"] by simp
  show "digit n \<noteq> CHR '' ''" using c[of "CHR '' ''"] by simp
  have "int (of_char (digit n)) = 48 + n mod 10"
    using digit_code[of n] by (simp only: of_nat_of_char)
  with r have "48 \<le> int (of_char (digit n))" "int (of_char (digit n)) \<le> 57" by simp_all
  then show "is_digit (digit n)" unfolding is_digit_def by linarith
qed

lemma refilled_input:
  assumes "0 \<le> YearFromTime t" and "YearFromTime t \<le> 9999"
  shows "formatted t =
           pad4 (YearFromTime t) @ ''-'' @ pad2 (MonthFromTime t + 1) @ ''-'' @ pad2 (DateFromTime t)
           @ '' '' @ pad2 (HourFromTime t) @ '':'' @ pad2 (MinFromTime t)
           @ '':'' @ pad2 (SecFromTime t)"
    and "parseDate P (formatted t) =
           Some (P (pad4 (YearFromTime t) @ ''-'' @ pad2 (MonthFromTime t + 1) @ ''-''
                    @ pad2 (DateFromTime t) @ ''T'' @ pad2 (HourFromTime t) @ '':''
                    @ pad2 (MinFromTime t) @ '':'' @ pad2 (SecFromTime t) @ ''Z''))"
  using assms
  by (simp_all add: formatted_def toISOString_def Let_def pad2_def pad3_def pad4_def digit_plain
        parseDate_def)

text \<open>
  A time and the start of its second are written alike, so the browser cannot read both
  back as they are stored: a stored time that is read back unchanged by a browser that
  reads whole seconds right has no milliseconds.
\<close>

lemma whole_second_div:
  assumes "(1000::int) dvd k" and "0 < k"
  shows "(t - t mod 1000) div k = t div k"
proof -
  from assms(1) obtain j where k: "k = 1000 * j" by (auto simp add: dvd_def)
  with assms(2) have j: "0 \<le> j" by simp
  have w: "(t - t mod 1000) div 1000 = t div 1000"
    by (simp add: minus_mod_eq_mult_div)
  have "(t - t mod 1000) div k = (t - t mod 1000) div 1000 div j"
    unfolding k by (rule zdiv_zmult2_eq[OF j])
  also have "\<dots> = t div 1000 div j" unfolding w ..
  also have "\<dots> = t div k" unfolding k by (rule zdiv_zmult2_eq[OF j, symmetric])
  finally show ?thesis .
qed

lemma whole_second_fields:
  "YearFromTime (t - t mod 1000) = YearFromTime t"
  "MonthFromTime (t - t mod 1000) = MonthFromTime t"
  "DateFromTime (t - t mod 1000) = DateFromTime t"
  "HourFromTime (t - t mod 1000) = HourFromTime t"
  "MinFromTime (t - t mod 1000) = MinFromTime t"
  "SecFromTime (t - t mod 1000) = SecFromTime t"
proof -
  have d: "Day (t - t mod 1000) = Day t"
    unfolding Day_def msPerDay_def by (rule whole_second_div) simp_all
  show y: "YearFromTime (t - t mod 1000) = YearFromTime t"
    by (simp add: YearFromTime_def d)
  have dy: "DayWithinYear (t - t mod 1000) = DayWithinYear t"
    by (simp add: DayWithinYear_def d y)
  show m: "MonthFromTime (t - t mod 1000) = MonthFromTime t"
    by (simp add: MonthFromTime_def dy y)
  show "DateFromTime (t - t mod 1000) = DateFromTime t"
    by (simp add: DateFromTime_def dy y m)
  have "(t - t mod 1000) div msPerHour = t div msPerHour"
    unfolding msPerHour_def by (rule whole_second_div) simp_all
  then show "HourFromTime (t - t mod 1000) = HourFromTime t"
    by (simp add: HourFromTime_def)
  have "(t - t mod 1000) div msPerMinute = t div msPerMinute"
    unfolding msPerMinute_def by (rule whole_second_div) simp_all
  then show "MinFromTime (t - t mod 1000) = MinFromTime t"
    by (simp add: MinFromTime_def)
  have "(t - t mod 1000) div msPerSecond = t div msPerSecond"
    unfolding msPerSecond_def by (rule whole_second_div) simp_all
  then show "SecFromTime (t - t mod 1000) = SecFromTime t"
    by (simp add: SecFromTime_def)
qed

lemma formatted_whole_second:
  assumes "0 \<le> YearFromTime t" and "YearFromTime t \<le> 9999"
  shows "formatted t = formatted (t - t mod 1000)"
proof -
  from assms have "0 \<le> YearFromTime (t - t mod 1000)" "YearFromTime (t - t mod 1000) \<le> 9999"
    by (simp_all add: whole_second_fields)
  from refilled_input(1)[OF this] refilled_input(1)[OF assms]
  show ?thesis by (simp add: whole_second_fields)
qed

lemma read_back_needs_whole_seconds:
  assumes "0 \<le> YearFromTime t" and "YearFromTime t \<le> 9999"
    and "parseDate P (formatted (t - t mod 1000)) = Some (Date (t - t mod 1000))"
    and "parseDate P (formatted t) = Some (Date t)"
  shows "t mod 1000 = 0"
  using assms(3,4) unfolding formatted_whole_second[OF assms(1,2), symmetric] by simp

text \<open>
  C9, amended: picking the realtime or the pastday button calls \<^verbatim>\<open>set\<close> with the time
  mode only, and picking the custom button calls nothing, so these leave the stored start
  and end time unchanged and the stored mode does not return to custom by the pick alone.
  The configuration returns to custom with the next valid submission of the inputs, which
  writes the end time, the start time and the time mode together, from the inputs.
  \<^verbatim>\<open>render\<close> has refilled the inputs from the stored times, formatted to whole seconds; so
  when the stored times are valid dates, the start not after the end and at most 31 days
  before it, and the browser reads the refilled inputs back as the stored times, the
  submission writes the stored times back and they are unchanged.
\<close>

theorem mode_round_trip:
  assumes "starttime c = Some (Date b)" and "endtime c = Some (Date e)"
    and "b \<le> e" and "e - b \<le> 2678400000"
    and "parseDate P (formatted b) = Some (Date b)"
    and "parseDate P (formatted e) = Some (Date e)"
  shows "snd (onTimeChange P TimeRealtime (browser PickRealtime v))
           = Some (no_keys\<lparr>set_timemode := Some ''realtime''\<rparr>)
       \<and> snd (onTimeChange P TimePastday (browser PickPastday v))
           = Some (no_keys\<lparr>set_timemode := Some ''pastday''\<rparr>)
       \<and> snd (onTimeChange P TimeCustom (browser PickCustom v)) = None
       \<and> snd (view_step P PickRealtime (v, c)) = c\<lparr>timemode := ''realtime''\<rparr>
       \<and> snd (view_step P PickPastday (v, c)) = c\<lparr>timemode := ''pastday''\<rparr>
       \<and> snd (view_step P PickCustom (v, c)) = c
       \<and> snd (view_run P [PickRealtime, PickCustom] (v, c)) = c\<lparr>timemode := ''realtime''\<rparr>
       \<and> snd (view_run P [PickPastday, PickCustom] (v, c)) = c\<lparr>timemode := ''pastday''\<rparr>
       \<and> snd (onTimeChange P TimeUpdate (fst (view_run P [PickRealtime, PickCustom] (v, c))))
           = Some (no_keys\<lparr>set_endtime := Some (Some (Date e)),
                            set_starttime := Some (Some (Date b)),
                            set_timemode := Some ''custom''\<rparr>)
       \<and> snd (onTimeChange P TimeUpdate (fst (view_run P [PickPastday, PickCustom] (v, c))))
           = Some (no_keys\<lparr>set_endtime := Some (Some (Date e)),
                            set_starttime := Some (Some (Date b)),
                            set_timemode := Some ''custom''\<rparr>)
       \<and> snd (view_run P [PickRealtime, PickCustom, ClickUpdate] (v, c)) = c\<lparr>timemode := ''custom''\<rparr>
       \<and> snd (view_run P [PickPastday, PickCustom, ClickUpdate] (v, c)) = c\<lparr>timemode := ''custom''\<rparr>"
proof (intro conjI)
  show "snd (onTimeChange P TimeRealtime (browser PickRealtime v))
           = Some (no_keys\<lparr>set_timemode := Some ''realtime''\<rparr>)"
    by (simp add: pick_radio)
  show "snd (onTimeChange P TimePastday (browser PickPastday v))
           = Some (no_keys\<lparr>set_timemode := Some ''pastday''\<rparr>)"
    by (simp add: pick_radio)
  show "snd (onTimeChange P TimeCustom (browser PickCustom v)) = None"
    by (simp add: pick_radio)
  show "snd (view_step P PickRealtime (v, c)) = c\<lparr>timemode := ''realtime''\<rparr>"
    by (rule view_step_pick)
  show "snd (view_step P PickPastday (v, c)) = c\<lparr>timemode := ''pastday''\<rparr>"
    by (rule view_step_pick)
  show "snd (view_step P PickCustom (v, c)) = c"
    by (simp add: view_step_pick)
  show "snd (view_run P [PickRealtime, PickCustom] (v, c)) = c\<lparr>timemode := ''realtime''\<rparr>"
    by (simp add: view_step_pick_valid[OF assms(1,2)] view_step_pick)
  show "snd (view_run P [PickPastday, PickCustom] (v, c)) = c\<lparr>timemode := ''pastday''\<rparr>"
    by (simp add: view_step_pick_valid[OF assms(1,2)] view_step_pick)
  show "snd (onTimeChange P TimeUpdate (fst (view_run P [PickRealtime, PickCustom] (v, c))))
           = Some (no_keys\<lparr>set_endtime := Some (Some (Date e)),
                            set_starttime := Some (Some (Date b)),
                            set_timemode := Some ''custom''\<rparr>)"
    by (rule round_trip_submit(1)[OF assms]) simp
  show "snd (onTimeChange P TimeUpdate (fst (view_run P [PickPastday, PickCustom] (v, c))))
           = Some (no_keys\<lparr>set_endtime := Some (Some (Date e)),
                            set_starttime := Some (Some (Date b)),
                            set_timemode := Some ''custom''\<rparr>)"
    by (rule round_trip_submit(1)[OF assms]) simp
  show "snd (view_run P [PickRealtime, PickCustom, ClickUpdate] (v, c)) = c\<lparr>timemode := ''custom''\<rparr>"
    by (rule round_trip_submit(2)[OF assms]) simp
  show "snd (view_run P [PickPastday, PickCustom, ClickUpdate] (v, c)) = c\<lparr>timemode := ''custom''\<rparr>"
    by (rule round_trip_submit(2)[OF assms]) simp
qed

lemma formatted_samples:
  "formatted 1609459200000 = ''2021-01-01 00:00:00''"
  "formatted 1609459200500 = ''2021-01-01 00:00:00''"
  "formatted 1612137600000 = ''2021-02-01 00:00:00''"
  by code_simp+

theorem mode_round_trip_witness:
  "starttime (default_config\<lparr>endtime := Some (Date 1612137600000),
                              starttime := Some (Date 1609459200000),
                              timemode := ''custom''\<rparr>) = Some (Date 1609459200000)
   \<and> endtime (default_config\<lparr>endtime := Some (Date 1612137600000),
                              starttime := Some (Date 1609459200000),
                              timemode := ''custom''\<rparr>) = Some (Date 1612137600000)
   \<and> (1609459200000::int) \<le> 1612137600000
   \<and> 1612137600000 - 1609459200000 \<le> (2678400000::int)
   \<and> parseDate sample_parse (formatted 1609459200000) = Some (Date 1609459200000)
   \<and> parseDate sample_parse (formatted 1612137600000) = Some (Date 1612137600000)
   \<and> snd (view_step sample_parse PickRealtime
        (blank_view, default_config\<lparr>endtime := Some (Date 1612137600000),
                                    starttime := Some (Date 1609459200000),
                                    timemode := ''custom''\<rparr>))
       = default_config\<lparr>endtime := Some (Date 1612137600000),
                        starttime := Some (Date 1609459200000),
                        timemode := ''realtime''\<rparr>
   \<and> snd (view_run sample_parse [PickRealtime, PickCustom]
        (blank_view, default_config\<lparr>endtime := Some (Date 1612137600000),
                                    starttime := Some (Date 1609459200000),
                                    timemode := ''custom''\<rparr>))
       = default_config\<lparr>endtime := Some (Date 1612137600000),
                        starttime := Some (Date 1609459200000),
                        timemode := ''realtime''\<rparr>
   \<and> snd (view_run sample_parse [PickRealtime, PickCustom, ClickUpdate]
        (blank_view, default_config\<lparr>endtime := Some (Date 1612137600000),
                                    starttime := Some (Date 1609459200000),
                                    timemode := ''custom''\<rparr>))
       = default_config\<lparr>endtime := Some (Date 1612137600000),
                        starttime := Some (Date 1609459200000),
                        timemode := ''custom''\<rparr>"
proof -
  define c where "c = default_config\<lparr>endtime := Some (Date 1612137600000),
                              starttime := Some (Date 1609459200000),
                              timemode := ''custom''\<rparr>"
  have h1: "starttime c = Some (Date 1609459200000)"
    and h2: "endtime c = Some (Date 1612137600000)" by (simp_all add: c_def)
  have h3: "(1609459200000::int) \<le> 1612137600000" by simp
  have h4: "1612137600000 - 1609459200000 \<le> (2678400000::int)" by simp
  have h5: "parseDate sample_parse (formatted 1609459200000) = Some (Date 1609459200000)"
    by (simp add: formatted_samples parseDate_def sample_parse_def)
  have h6: "parseDate sample_parse (formatted 1612137600000) = Some (Date 1612137600000)"
    by (simp add: formatted_samples parseDate_def sample_parse_def)
  note w = mode_round_trip[OF h1 h2 h3 h4 h5 h6, of blank_view]
  have r: "c\<lparr>timemode := ''realtime''\<rparr>
           = default_config\<lparr>endtime := Some (Date 1612137600000),
                        starttime := Some (Date 1609459200000),
                        timemode := ''realtime''\<rparr>"
    "c\<lparr>timemode := ''custom''\<rparr>
           = default_config\<lparr>endtime := Some (Date 1612137600000),
                        starttime := Some (Date 1609459200000),
                        timemode := ''custom''\<rparr>"
    by (simp_all add: c_def)
  note w4 = conjunct1[OF conjunct2[OF conjunct2[OF conjunct2[OF w]]]]
  note w7 = conjunct1[OF conjunct2[OF conjunct2[OF conjunct2[OF conjunct2[OF conjunct2[OF conjunct2[OF w]]]]]]]
  note w11 = conjunct1[OF conjunct2[OF conjunct2[OF conjunct2[OF conjunct2[OF conjunct2[OF conjunct2[OF conjunct2[OF conjunct2[OF conjunct2[OF conjunct2[OF w]]]]]]]]]]]
  show ?thesis
    using h1 h2 h3 h4 h5 h6 w4[unfolded r] w7[unfolded r] w11[unfolded r]
    unfolding c_def by (intro conjI)
qed

text \<open>
  C9, as stated: switching to realtime and back to custom leaves the stored times unchanged,
  and the updates of the switch write the time mode only. A start time entered as
  2021-01-01 00:00:00.500 is stored with its half second. After a switch to realtime the
  stored mode is still realtime when the custom button is picked; the submission that
  makes it custom again writes all three fields, and the start time it writes, read from
  the refilled input, has lost the half second.
\<close>

theorem round_trip_drops_milliseconds:
  "starttime (snd (view_run sample_parse [ClickUpdate]
       (custom_view ''2021-01-01 00:00:00.500'' ''2021-02-01 00:00:00'', default_config)))
     = Some (Date 1609459200500)
   \<and> timemode (snd (view_run sample_parse [ClickUpdate, PickRealtime, PickCustom]
       (custom_view ''2021-01-01 00:00:00.500'' ''2021-02-01 00:00:00'', default_config)))
     = ''realtime''
   \<and> snd (onTimeChange sample_parse TimeUpdate
        (fst (view_run sample_parse [ClickUpdate, PickRealtime, PickCustom]
           (custom_view ''2021-01-01 00:00:00.500'' ''2021-02-01 00:00:00'', default_config))))
     = Some (no_keys\<lparr>set_endtime := Some (Some (Date 1612137600000)),
                      set_starttime := Some (Some (Date 1609459200000)),
                      set_timemode := Some ''custom''\<rparr>)
   \<and> starttime (snd (view_run sample_parse [ClickUpdate, PickRealtime, PickCustom, ClickUpdate]
       (custom_view ''2021-01-01 00:00:00.500'' ''2021-02-01 00:00:00'', default_config)))
     = Some (Date 1609459200000)"
  by code_simp

text \<open>
  C7: when the custom button is checked and both inputs parse to valid times, a submission
  ends with the error "Please select less than 1 month of data." and without a call of
  \<^verbatim>\<open>set\<close> exactly when \<open>end - start > 2678400000\<close>; \<^verbatim>\<open>_validateRange\<close> itself passes
  exactly when the span is not greater; a span of exactly 2678400000 ms passes and is
  committed.
\<close>

theorem span_check:
  assumes "timeCustom_checked v" and "target \<noteq> TimeCustom"
    and "parseDate P (startTime_value v) = Some (Date b)"
    and "parseDate P (endTime_value v) = Some (Date e)"
  shows "((timeError (fst (onTimeChange P target v)) = Some ''Please select less than 1 month of data.''
           \<and> snd (onTimeChange P target v) = None)
          \<longleftrightarrow> e - b > 2678400000)
       \<and> (fst (validateRange (Some (Date b)) (Some (Date e)) v) \<longleftrightarrow> \<not> e - b > 2678400000)
       \<and> (e - b = 2678400000 \<longrightarrow>
            fst (validateRange (Some (Date b)) (Some (Date e)) v)
            \<and> timeError (fst (onTimeChange P target v)) = None
            \<and> snd (onTimeChange P target v)
                = Some (no_keys\<lparr>set_endtime := Some (Some (Date e)),
                                 set_starttime := Some (Some (Date b)),
                                 set_timemode := Some ''custom''\<rparr>))"
  by (simp add: onTimeChange_valid[OF assms] validateRange_def)

text \<open>
  C3: a submission with start not before end, start equal to end included, is rejected
  with the ordering error and nothing is committed. \<^verbatim>\<open>_timeOrder\<close> tests \<^verbatim>\<open>start > end\<close>, so
  with both inputs reading 2021-01-01 00:00:00 the error is cleared and the window of
  length zero is committed, although the function's own comment asks that the start comes
  before the end and the message says so.
\<close>

theorem equal_times_are_committed:
  "onTimeChange sample_parse TimeUpdate (custom_view ''2021-01-01 00:00:00'' ''2021-01-01 00:00:00'')
     = (custom_view ''2021-01-01 00:00:00'' ''2021-01-01 00:00:00'',
        Some (no_keys\<lparr>set_endtime := Some (Some (Date 1609459200000)),
                       set_starttime := Some (Some (Date 1609459200000)),
                       set_timemode := Some ''custom''\<rparr>))"
  by (simp add: onTimeChange_def Let_def validateTime_def timeOrder_def validateRange_def
        setTimeError_def parseDate_def sample_parse_def custom_view_def)

text \<open>
  What the ordering check does otherwise: a start after the end is rejected with the error
  and without a call of \<^verbatim>\<open>set\<close>, and whatever is committed has the start and the end as
  they were entered, never swapped.
\<close>

lemma order_check:
  assumes "timeCustom_checked v" and "target \<noteq> TimeCustom"
    and "parseDate P (startTime_value v) = Some (Date b)"
    and "parseDate P (endTime_value v) = Some (Date e)"
  shows "(b > e \<longrightarrow>
            timeError (fst (onTimeChange P target v)) = Some ''Start Time must come before End Time.''
            \<and> snd (onTimeChange P target v) = None)
       \<and> (b = e \<longrightarrow>
            fst (timeOrder (Some (Date b)) (Some (Date e)) v)
            \<and> timeError (fst (onTimeChange P target v)) = None
            \<and> snd (onTimeChange P target v)
                = Some (no_keys\<lparr>set_endtime := Some (Some (Date e)),
                                 set_starttime := Some (Some (Date b)),
                                 set_timemode := Some ''custom''\<rparr>))
       \<and> (\<forall>p. snd (onTimeChange P target v) = Some p \<longrightarrow>
            set_starttime p = Some (Some (Date b)) \<and> set_endtime p = Some (Some (Date e)))"
  by (simp add: onTimeChange_valid[OF assms] timeOrder_def)

lemma sample_inputs:
  "timeCustom_checked (custom_view x y)"
  "parseDate sample_parse ''2021-01-01 00:00:00'' = Some (Date 1609459200000)"
  "parseDate sample_parse ''2021-02-01 00:00:00'' = Some (Date 1612137600000)"
  "parseDate sample_parse ''2021-03-01 00:00:00'' = Some (Date 1614556800000)"
  "startTime_value (custom_view x y) = x"
  "endTime_value (custom_view x y) = y"
  by (simp_all add: custom_view_def parseDate_def sample_parse_def)

theorem span_check_witness:
  "timeCustom_checked (custom_view ''2021-01-01 00:00:00'' ''2021-02-01 00:00:00'')
   \<and> TimeUpdate \<noteq> TimeCustom
   \<and> parseDate sample_parse (startTime_value (custom_view ''2021-01-01 00:00:00'' ''2021-02-01 00:00:00''))
       = Some (Date 1609459200000)
   \<and> parseDate sample_parse (endTime_value (custom_view ''2021-01-01 00:00:00'' ''2021-02-01 00:00:00''))
       = Some (Date 1612137600000)
   \<and> (1612137600000 - 1609459200000 = (2678400000::int))
   \<and> timeError (fst (onTimeChange sample_parse TimeUpdate
         (custom_view ''2021-01-01 00:00:00'' ''2021-02-01 00:00:00''))) = None
   \<and> snd (onTimeChange sample_parse TimeUpdate
         (custom_view ''2021-01-01 00:00:00'' ''2021-02-01 00:00:00''))
       = Some (no_keys\<lparr>set_endtime := Some (Some (Date 1612137600000)),
                        set_starttime := Some (Some (Date 1609459200000)),
                        set_timemode := Some ''custom''\<rparr>)
   \<and> parseDate sample_parse (endTime_value (custom_view ''2021-01-01 00:00:00'' ''2021-03-01 00:00:00''))
       = Some (Date 1614556800000)
   \<and> (1614556800000 - 1609459200000 > (2678400000::int))
   \<and> timeError (fst (onTimeChange sample_parse TimeUpdate
         (custom_view ''2021-01-01 00:00:00'' ''2021-03-01 00:00:00'')))
       = Some ''Please select less than 1 month of data.''
   \<and> snd (onTimeChange sample_parse TimeUpdate
         (custom_view ''2021-01-01 00:00:00'' ''2021-03-01 00:00:00'')) = None"
proof -
  define v where "v = custom_view ''2021-01-01 00:00:00'' ''2021-02-01 00:00:00''"
  define u where "u = custom_view ''2021-01-01 00:00:00'' ''2021-03-01 00:00:00''"
  have t: "TimeUpdate \<noteq> TimeCustom" by simp
  have v1: "timeCustom_checked v"
    and v2: "parseDate sample_parse (startTime_value v) = Some (Date 1609459200000)"
    and v3: "parseDate sample_parse (endTime_value v) = Some (Date 1612137600000)"
    by (simp_all add: v_def sample_inputs)
  have u1: "timeCustom_checked u"
    and u2: "parseDate sample_parse (startTime_value u) = Some (Date 1609459200000)"
    and u3: "parseDate sample_parse (endTime_value u) = Some (Date 1614556800000)"
    by (simp_all add: u_def sample_inputs)
  have a1: "1612137600000 - 1609459200000 = (2678400000::int)" by simp
  have a2: "1614556800000 - 1609459200000 > (2678400000::int)" by simp
  note wv = mp[OF conjunct2[OF conjunct2[OF span_check[OF v1 t v2 v3]]] a1]
  note wu = iffD2[OF conjunct1[OF span_check[OF u1 t u2 u3]] a2]
  show ?thesis
    using v1 t v2 v3 a1 conjunct1[OF conjunct2[OF wv]] conjunct2[OF conjunct2[OF wv]]
      u3 a2 conjunct1[OF wu] conjunct2[OF wu]
    unfolding v_def u_def sample_inputs by (intro conjI)
qed

lemma order_check_examples:
  "timeCustom_checked (custom_view ''2021-02-01 00:00:00'' ''2021-01-01 00:00:00'')
   \<and> TimeUpdate \<noteq> TimeCustom
   \<and> parseDate sample_parse (startTime_value (custom_view ''2021-02-01 00:00:00'' ''2021-01-01 00:00:00''))
       = Some (Date 1612137600000)
   \<and> parseDate sample_parse (endTime_value (custom_view ''2021-02-01 00:00:00'' ''2021-01-01 00:00:00''))
       = Some (Date 1609459200000)
   \<and> (1612137600000 > (1609459200000::int))
   \<and> timeError (fst (onTimeChange sample_parse TimeUpdate
         (custom_view ''2021-02-01 00:00:00'' ''2021-01-01 00:00:00'')))
       = Some ''Start Time must come before End Time.''
   \<and> snd (onTimeChange sample_parse TimeUpdate
         (custom_view ''2021-02-01 00:00:00'' ''2021-01-01 00:00:00'')) = None
   \<and> parseDate sample_parse (endTime_value (custom_view ''2021-01-01 00:00:00'' ''2021-01-01 00:00:00''))
       = Some (Date 1609459200000)
   \<and> timeError (fst (onTimeChange sample_parse TimeUpdate
         (custom_view ''2021-01-01 00:00:00'' ''2021-01-01 00:00:00''))) = None
   \<and> snd (onTimeChange sample_parse TimeUpdate
         (custom_view ''2021-01-01 00:00:00'' ''2021-01-01 00:00:00''))
       = Some (no_keys\<lparr>set_endtime := Some (Some (Date 1609459200000)),
                        set_starttime := Some (Some (Date 1609459200000)),
                        set_timemode := Some ''custom''\<rparr>)"
proof -
  define v where "v = custom_view ''2021-02-01 00:00:00'' ''2021-01-01 00:00:00''"
  define u where "u = custom_view ''2021-01-01 00:00:00'' ''2021-01-01 00:00:00''"
  have t: "TimeUpdate \<noteq> TimeCustom" by simp
  have v1: "timeCustom_checked v"
    and v2: "parseDate sample_parse (startTime_value v) = Some (Date 1612137600000)"
    and v3: "parseDate sample_parse (endTime_value v) = Some (Date 1609459200000)"
    by (simp_all add: v_def sample_inputs)
  have u1: "timeCustom_checked u"
    and u2: "parseDate sample_parse (startTime_value u) = Some (Date 1609459200000)"
    and u3: "parseDate sample_parse (endTime_value u) = Some (Date 1609459200000)"
    by (simp_all add: u_def sample_inputs)
  have a1: "1612137600000 > (1609459200000::int)" by simp
  have a2: "(1609459200000::int) = 1609459200000" by simp
  note wv = mp[OF conjunct1[OF order_check[OF v1 t v2 v3]] a1]
  note wu = mp[OF conjunct1[OF conjunct2[OF order_check[OF u1 t u2 u3]]] a2]
  show ?thesis
    using v1 t v2 v3 a1 conjunct1[OF wv] conjunct2[OF wv]
      u3 conjunct1[OF conjunct2[OF wu]] conjunct2[OF conjunct2[OF wu]]
    unfolding v_def u_def sample_inputs by (intro conjI)
qed

end
